theory Spec2Isabelle
  imports Complex_Main
begin

section \<open>Conventions of the embedding\<close>

text \<open>
  The program is \<^verbatim>\<open>Monte_Carlo_SIM.py\<close>, the class \<^verbatim>\<open>MonteCarloEngine5M\<close>.
  A numpy \<^verbatim>\<open>float64\<close> is read as a real number (exact arithmetic, no rounding and no
  overflow); the two places where numpy leaves the numbers are kept visible:
  a division by zero and the mean of an empty array give \<^verbatim>\<open>nan\<close> or \<^verbatim>\<open>inf\<close>, written
  \<open>None\<close> in a \<open>real option\<close>. Python exceptions are values of \<open>error\<close>, and a
  function that may raise returns \<open>error + 'a\<close>. Wall-clock timing and printing are
  left out.
\<close>

datatype error = ZeroDivisionError | ValueError | IndexError | LinAlgError

definition bind_err :: "error + 'a \<Rightarrow> ('a \<Rightarrow> error + 'b) \<Rightarrow> error + 'b" where
  "bind_err m f = (case m of Inl e \<Rightarrow> Inl e | Inr x \<Rightarrow> f x)"

text \<open>\<^verbatim>\<open>int(x)\<close> on a float truncates towards zero.\<close>

definition py_int :: "real \<Rightarrow> int" where
  "py_int x = (if x < 0 then \<lceil>x\<rceil> else \<lfloor>x\<rfloor>)"

text \<open>\<^verbatim>\<open>a[i]\<close> on a one-dimensional array: negative indices count from the end,
  anything else out of range raises \<^verbatim>\<open>IndexError\<close>.\<close>

definition np_get :: "'a list \<Rightarrow> int \<Rightarrow> error + 'a" where
  "np_get xs i =
     (if 0 \<le> i \<and> nat i < length xs then Inr (xs ! nat i)
      else if i < 0 \<and> - i \<le> int (length xs) then Inr (xs ! nat (int (length xs) + i))
      else Inl IndexError)"

text \<open>The bound of a slice \<^verbatim>\<open>a[lo:hi]\<close>, clamped as Python does.\<close>

definition slice_bound :: "nat \<Rightarrow> int \<Rightarrow> nat" where
  "slice_bound n i = (if i < 0 then nat (max (i + int n) 0) else min (nat i) n)"

definition np_slice :: "'a list \<Rightarrow> int \<Rightarrow> int \<Rightarrow> 'a list" where
  "np_slice xs lo hi =
     (let a = slice_bound (length xs) lo; b = slice_bound (length xs) hi
      in take (b - a) (drop a xs))"

text \<open>\<^verbatim>\<open>np.mean\<close>, \<^verbatim>\<open>np.std\<close> (population standard deviation) and \<^verbatim>\<open>np.median\<close>;
  on an empty array each is \<^verbatim>\<open>nan\<close>.\<close>

definition np_mean :: "real list \<Rightarrow> real option" where
  "np_mean xs = (if xs = [] then None else Some (sum_list xs / real (length xs)))"

definition np_std :: "real list \<Rightarrow> real option" where
  "np_std xs =
     (case np_mean xs of
        None \<Rightarrow> None
      | Some m \<Rightarrow> map_option sqrt (np_mean (map (\<lambda>x. (x - m)\<^sup>2) xs)))"

definition np_median :: "real list \<Rightarrow> real option" where
  "np_median xs =
     (let s = sort xs; n = length s
      in if n = 0 then None
         else if odd n then Some (s ! (n div 2))
         else Some ((s ! (n div 2 - 1) + s ! (n div 2)) / 2))"

section \<open>Risk metrics\<close>

record metrics =
  mean_return :: "real option"
  median_return :: "real option"
  std_return :: "real option"
  percentile_1 :: real
  percentile_5 :: real
  percentile_25 :: real
  percentile_75 :: real
  percentile_95 :: real
  percentile_99 :: real
  VaR_95 :: real
  VaR_99 :: real
  VaR_999 :: real
  CVaR_95 :: "real option"
  CVaR_99 :: "real option"
  CVaR_999 :: "real option"
  prob_loss :: real
  prob_loss_10 :: real
  prob_loss_20 :: real
  prob_loss_50 :: real
  prob_profit :: real
  prob_profit_10 :: real
  prob_profit_20 :: real
  prob_profit_50 :: real
  skewness :: "real option"
  kurtosis :: "real option"
  sharpe_ratio :: "real option"

definition calculate_skewness :: "real list \<Rightarrow> real option" where
  "calculate_skewness returns =
     (case (np_mean returns, np_std returns) of
        (Some mean, Some std) \<Rightarrow>
          if std = 0 then Some 0
          else np_mean (map (\<lambda>r. ((r - mean) / std) ^ 3) returns)
      | _ \<Rightarrow> None)"

definition calculate_kurtosis :: "real list \<Rightarrow> real option" where
  "calculate_kurtosis returns =
     (case (np_mean returns, np_std returns) of
        (Some mean, Some std) \<Rightarrow>
          if std = 0 then Some 0
          else map_option (\<lambda>k. k - 3) (np_mean (map (\<lambda>r. ((r - mean) / std) ^ 4) returns))
      | _ \<Rightarrow> None)"

text \<open>\<^verbatim>\<open>np.sum(returns < c) / n\<close>: the fraction of entries that satisfy a comparison.
  It is only reached with \<open>n > 0\<close> (the indexing above it raises on an empty array).\<close>

definition frac :: "(real \<Rightarrow> bool) \<Rightarrow> real list \<Rightarrow> real" where
  "frac P xs = real (length (filter P xs)) / real (length xs)"

text \<open>\<^verbatim>\<open>_calculate_metrics\<close>. The dictionary is built entry by entry, so the first
  failing index raises; the entries before it (\<^verbatim>\<open>np.mean\<close>, \<^verbatim>\<open>np.median\<close>, \<^verbatim>\<open>np.std\<close>)
  do not raise.\<close>

definition calculate_metrics :: "real list \<Rightarrow> error + metrics" where
  "calculate_metrics returns =
     (let returns_sorted = sort returns;
          n = length returns_sorted
      in
      bind_err (np_get returns_sorted (py_int (real n * 0.01))) (\<lambda>p1.
      bind_err (np_get returns_sorted (py_int (real n * 0.05))) (\<lambda>p5.
      bind_err (np_get returns_sorted (py_int (real n * 0.25))) (\<lambda>p25.
      bind_err (np_get returns_sorted (py_int (real n * 0.75))) (\<lambda>p75.
      bind_err (np_get returns_sorted (py_int (real n * 0.95))) (\<lambda>p95.
      bind_err (np_get returns_sorted (py_int (real n * 0.99))) (\<lambda>p99.
      bind_err (np_get returns_sorted (py_int (real n * 0.05))) (\<lambda>v95.
      bind_err (np_get returns_sorted (py_int (real n * 0.01))) (\<lambda>v99.
      bind_err (np_get returns_sorted (py_int (real n * 0.001))) (\<lambda>v999.
      Inr \<lparr> mean_return = np_mean returns,
            median_return = np_median returns,
            std_return = np_std returns,
            percentile_1 = p1,
            percentile_5 = p5,
            percentile_25 = p25,
            percentile_75 = p75,
            percentile_95 = p95,
            percentile_99 = p99,
            VaR_95 = v95,
            VaR_99 = v99,
            VaR_999 = v999,
            CVaR_95 = np_mean (np_slice returns_sorted 0 (py_int (real n * 0.05))),
            CVaR_99 = np_mean (np_slice returns_sorted 0 (py_int (real n * 0.01))),
            CVaR_999 = np_mean (np_slice returns_sorted 0 (py_int (real n * 0.001))),
            prob_loss = frac (\<lambda>r. r < 0) returns,
            prob_loss_10 = frac (\<lambda>r. r < - 0.10) returns,
            prob_loss_20 = frac (\<lambda>r. r < - 0.20) returns,
            prob_loss_50 = frac (\<lambda>r. r < - 0.50) returns,
            prob_profit = frac (\<lambda>r. r > 0) returns,
            prob_profit_10 = frac (\<lambda>r. r > 0.10) returns,
            prob_profit_20 = frac (\<lambda>r. r > 0.20) returns,
            prob_profit_50 = frac (\<lambda>r. r > 0.50) returns,
            skewness = calculate_skewness returns,
            kurtosis = calculate_kurtosis returns,
            sharpe_ratio =
              (case np_std returns of
                 Some s \<Rightarrow> if s > 0 then map_option (\<lambda>m. m / s) (np_mean returns) else Some 0
               | None \<Rightarrow> Some 0) \<rparr>))))))))))"

section \<open>The exported percentile table\<close>

text \<open>\<^verbatim>\<open>np.percentile(a, pct)\<close> with numpy's default method (\<^verbatim>\<open>linear\<close>): the
  array is sorted, the virtual index is \<open>(n - 1) * pct / 100\<close>, and the value is
  interpolated linearly between the two order statistics around it. An empty array
  raises \<^verbatim>\<open>IndexError\<close>.\<close>

definition lerp_percentile :: "real list \<Rightarrow> real \<Rightarrow> real" where
  "lerp_percentile s pct =
     (let n = length s;
          h = real (n - 1) * (pct / 100);
          lo = nat \<lfloor>h\<rfloor>;
          hi = min (lo + 1) (n - 1);
          g = h - real lo
      in s ! lo + g * (s ! hi - s ! lo))"

definition np_percentile :: "real list \<Rightarrow> real \<Rightarrow> error + real" where
  "np_percentile a pct =
     (let s = sort a
      in if length s = 0 then Inl IndexError else Inr (lerp_percentile s pct))"

text \<open>Part 3 of \<^verbatim>\<open>export_results\<close>: one row per percentile of the fixed list, the
  number \<^verbatim>\<open>pct\<close> of the label \<^verbatim>\<open>f'{pct}%'\<close> and the column \<^verbatim>\<open>Value\<close> (the formatted
  column \<^verbatim>\<open>Return\<close> repeats the value as text and is left out).\<close>

fun percentile_rows :: "real list \<Rightarrow> nat list \<Rightarrow> error + (nat \<times> real) list" where
  "percentile_rows returns [] = Inr []"
| "percentile_rows returns (pct # pcts) =
     bind_err (np_percentile returns (real pct)) (\<lambda>v.
     bind_err (percentile_rows returns pcts) (\<lambda>rows. Inr ((pct, v) # rows)))"

definition export_percentiles :: "real list \<Rightarrow> error + (nat \<times> real) list" where
  "export_percentiles returns = percentile_rows returns [1, 5, 10, 25, 50, 75, 90, 95, 99]"

text \<open>Reading the table by its label, as the report generator does
  (\<^verbatim>\<open>self.returns[np.where(self.percentiles == 25)[0][0]]\<close>), and the entry
  \<^verbatim>\<open>percentile_{pct}\<close> of the metrics dictionary by the same number.\<close>

definition lookup_percentile :: "real list \<Rightarrow> nat \<Rightarrow> error + real option" where
  "lookup_percentile rs pct = bind_err (export_percentiles rs) (\<lambda>rows. Inr (map_of rows pct))"

definition metrics_percentile :: "metrics \<Rightarrow> nat \<Rightarrow> real option" where
  "metrics_percentile m pct =
     (if pct = 1 then Some (percentile_1 m)
      else if pct = 5 then Some (percentile_5 m)
      else if pct = 25 then Some (percentile_25 m)
      else if pct = 75 then Some (percentile_75 m)
      else if pct = 95 then Some (percentile_95 m)
      else if pct = 99 then Some (percentile_99 m)
      else None)"

definition metric_of :: "(metrics \<Rightarrow> 'a) \<Rightarrow> real list \<Rightarrow> error + 'a" where
  "metric_of field rs = bind_err (calculate_metrics rs) (\<lambda>m. Inr (field m))"

text \<open>The same two definitions as the specification words them (section 4.5):
  \<open>percentile(p) = sorted_returns[floor(n * p)]\<close> and
  \<open>CVaR(p) = mean of sorted_returns[0 : floor(n * p)]\<close>.\<close>

definition spec_percentile :: "real list \<Rightarrow> real \<Rightarrow> real" where
  "spec_percentile rs p = sort rs ! nat \<lfloor>real (length rs) * p\<rfloor>"

definition spec_cvar :: "real list \<Rightarrow> real \<Rightarrow> real option" where
  "spec_cvar rs p = np_mean (take (nat \<lfloor>real (length rs) * p\<rfloor>) (sort rs))"

section \<open>The random stream\<close>

text \<open>\<^verbatim>\<open>np.random.seed(42)\<close> in \<^verbatim>\<open>__init__\<close> fixes the sequence of standard normal
  numbers that the global generator hands out; \<open>rng\<close> is that sequence and the state
  of the generator is the number of draws consumed so far. A call of
  \<^verbatim>\<open>standard_normal(shape)\<close> fills the array in row-major order with the next draws
  and raises \<^verbatim>\<open>ValueError\<close> on a negative dimension before drawing.\<close>

type_synonym rng = "nat \<Rightarrow> real"

definition standard_normal :: "rng \<Rightarrow> int \<Rightarrow> int \<Rightarrow> int \<Rightarrow> nat \<Rightarrow> (error + real list) \<times> nat" where
  "standard_normal g d0 d1 d2 pos =
     (if d0 < 0 \<or> d1 < 0 \<or> d2 < 0 then (Inl ValueError, pos)
      else let k = nat d0 * nat d1 * nat d2
           in (Inr (map g [pos ..< pos + k]), pos + k))"

section \<open>Arrays\<close>

text \<open>An array is its row-major buffer; \<^verbatim>\<open>reshape(-1, ncols)\<close> cuts the buffer into
  rows and raises \<^verbatim>\<open>ValueError\<close> when the row count cannot be inferred.\<close>

definition reshape2 :: "'a list \<Rightarrow> nat \<Rightarrow> error + 'a list list" where
  "reshape2 buf ncols =
     (if ncols = 0 \<or> length buf mod ncols \<noteq> 0 then Inl ValueError
      else Inr (map (\<lambda>r. take ncols (drop (r * ncols) buf)) [0 ..< length buf div ncols]))"

text \<open>\<^verbatim>\<open>rows.reshape(b, t, n)\<close> of a matrix with \<open>b * t\<close> rows of length \<open>n\<close>: block \<open>i\<close>
  holds the rows \<open>i * t, ..., i * t + t - 1\<close>.\<close>

definition reshape3 :: "'a list list \<Rightarrow> nat \<Rightarrow> nat \<Rightarrow> 'a list list list" where
  "reshape3 rows b t = map (\<lambda>i. take t (drop (i * t) rows)) [0 ..< b]"

definition dot :: "real list \<Rightarrow> real list \<Rightarrow> real" where
  "dot xs ys = sum_list (map2 (*) xs ys)"

text \<open>\<^verbatim>\<open>Z @ L.T\<close> for a matrix \<open>Z\<close> with \<open>ncols\<close> columns: entry \<open>(r, j)\<close> is the product
  of row \<open>r\<close> of \<open>Z\<close> with row \<open>j\<close> of \<open>L\<close>; the inner dimensions must agree.\<close>

definition matmul_T :: "real list list \<Rightarrow> nat \<Rightarrow> real list list \<Rightarrow> error + real list list" where
  "matmul_T Z ncols L =
     (if ncols \<noteq> length L then Inl ValueError
      else Inr (map (\<lambda>z. map (\<lambda>l. dot z l) L) Z))"

text \<open>\<^verbatim>\<open>weights * initial_prices\<close> on one-dimensional arrays, with numpy's
  broadcasting of a length-one operand.\<close>

definition np_mul :: "real list \<Rightarrow> real list \<Rightarrow> error + real list" where
  "np_mul xs ys =
     (if length xs = length ys then Inr (map2 (*) xs ys)
      else if length xs = 1 then Inr (map (\<lambda>y. hd xs * y) ys)
      else if length ys = 1 then Inr (map (\<lambda>x. x * hd ys) xs)
      else Inl ValueError)"

text \<open>Float division of numpy: a zero divisor gives \<^verbatim>\<open>nan\<close> or \<^verbatim>\<open>inf\<close>, no exception.\<close>

definition np_div :: "real \<Rightarrow> real \<Rightarrow> real option" where
  "np_div a b = (if b = 0 then None else Some (a / b))"

text \<open>\<^verbatim>\<open>a[lo:hi] = vals\<close>: the slice is replaced when the lengths agree, a single
  value is broadcast, anything else raises \<^verbatim>\<open>ValueError\<close>.\<close>

definition slice_assign :: "'a list \<Rightarrow> int \<Rightarrow> int \<Rightarrow> 'a list \<Rightarrow> error + 'a list" where
  "slice_assign xs lo hi vals =
     (let a = slice_bound (length xs) lo;
          b = slice_bound (length xs) hi;
          len = b - a
      in if length vals = len then Inr (take a xs @ vals @ drop (a + len) xs)
         else if length vals = 1 then Inr (take a xs @ replicate len (hd vals) @ drop (a + len) xs)
         else Inl ValueError)"

section \<open>Cholesky factorisation\<close>

text \<open>\<^verbatim>\<open>np.linalg.cholesky\<close> (LAPACK \<^verbatim>\<open>potrf\<close>, lower variant) in exact arithmetic. Only
  the lower triangle of the argument is read. Row \<open>i\<close> of the factor is computed from
  the rows before it: the entries left of the diagonal by forward substitution, the
  diagonal entry as the square root of the pivot; a pivot that is not positive stops
  the factorisation. An argument that is not a square matrix with at least one row,
  or one that is not positive definite, raises \<^verbatim>\<open>LinAlgError\<close>.\<close>

fun chol_offdiag :: "real list \<Rightarrow> real list list \<Rightarrow> real list \<Rightarrow> real list" where
  "chol_offdiag a [] acc = acc"
| "chol_offdiag a (Lj # rest) acc =
     (let j = length acc
      in chol_offdiag a rest (acc @ [(a ! j - dot acc Lj) / (Lj ! j)]))"

fun chol_rows :: "real list list \<Rightarrow> real list list \<Rightarrow> real list list option" where
  "chol_rows [] Ls = Some Ls"
| "chol_rows (a # as) Ls =
     (let i = length Ls;
          off = chol_offdiag a Ls [];
          d = a ! i - dot off off
      in if d \<le> 0 then None
         else chol_rows as (Ls @ [off @ [sqrt d] @ replicate (length as) 0]))"

definition cholesky :: "real list list \<Rightarrow> error + real list list" where
  "cholesky A =
     (if A = [] \<or> \<not> list_all (\<lambda>r. length r = length A) A then Inl LinAlgError
      else case chol_rows A [] of None \<Rightarrow> Inl LinAlgError | Some L \<Rightarrow> Inr L)"

section \<open>The engine\<close>

record engine =
  n_simulations :: int
  batch_size :: int
  n_batches :: int

text \<open>\<^verbatim>\<open>__init__\<close>: \<^verbatim>\<open>n_simulations / batch_size\<close> is Python's true division, which
  raises on a zero divisor. The generator is seeded here, once per engine: the
  stream starts again at its first draw.\<close>

definition engine_init :: "int \<Rightarrow> int \<Rightarrow> error + engine" where
  "engine_init n_sims b_size =
     (if b_size = 0 then Inl ZeroDivisionError
      else Inr \<lparr> n_simulations = n_sims, batch_size = b_size,
                 n_batches = \<lceil>real_of_int n_sims / real_of_int b_size\<rceil> \<rparr>)"

record portfolio_config =
  tickers :: "string list"
  weights :: "real list"
  initial_prices :: "real list"
  expected_returns :: "real list"
  volatilities :: "real list"
  correlation_matrix :: "real list list"

subsection \<open>One batch\<close>

text \<open>The three array expressions of the loop body of \<^verbatim>\<open>simulate_portfolio_batch\<close>,
  for one asset: \<open>Zi\<close> is \<^verbatim>\<open>Z_corr[:, :, i]\<close>, one row of shocks per path.\<close>

definition log_returns :: "real \<Rightarrow> real \<Rightarrow> real \<Rightarrow> real list list \<Rightarrow> real list list" where
  "log_returns mu sigma dt Zi =
     map (map (\<lambda>z. (mu - 0.5 * sigma\<^sup>2) * dt + sigma * sqrt dt * z)) Zi"

definition cumulative_return :: "real list list \<Rightarrow> real list" where
  "cumulative_return rets = map sum_list rets"

definition final_prices :: "real \<Rightarrow> real list \<Rightarrow> real list" where
  "final_prices P0 cum = map (\<lambda>c. P0 * exp c) cum"

fun asset_loop :: "real list \<Rightarrow> real list \<Rightarrow> real list \<Rightarrow> real list \<Rightarrow> real list list list \<Rightarrow>
    real \<Rightarrow> nat list \<Rightarrow> real list \<Rightarrow> error + real list" where
  "asset_loop ws ps mus sigmas Z_corr dt [] portfolio_final_values = Inr portfolio_final_values"
| "asset_loop ws ps mus sigmas Z_corr dt (i # is) portfolio_final_values =
     bind_err (np_get mus (int i)) (\<lambda>mu.
     bind_err (np_get sigmas (int i)) (\<lambda>sigma.
       let rets = log_returns mu sigma dt (map (map (\<lambda>row. row ! i)) Z_corr);
           cum = cumulative_return rets
       in
     bind_err (np_get ps (int i)) (\<lambda>P0.
     bind_err (np_get ws (int i)) (\<lambda>w.
       asset_loop ws ps mus sigmas Z_corr dt is
         (map2 (+) portfolio_final_values (map (\<lambda>p. p * w) (final_prices P0 cum)))))))"

definition simulate_portfolio_batch :: "rng \<Rightarrow> real list \<Rightarrow> real list \<Rightarrow> real list \<Rightarrow> real list \<Rightarrow>
    real list list \<Rightarrow> real \<Rightarrow> int \<Rightarrow> nat \<Rightarrow> (error + real list) \<times> nat" where
  "simulate_portfolio_batch g ws ps mus sigmas corr T batch_n_sims pos =
     (let n_assets = length ws;
          n_steps = py_int (T * 252);
          dt = 1 / 252
      in case cholesky corr of
           Inl e \<Rightarrow> (Inl e, pos)
         | Inr L \<Rightarrow>
             (case standard_normal g batch_n_sims n_steps (int n_assets) pos of
                (Inl e, pos') \<Rightarrow> (Inl e, pos')
              | (Inr Z_indep, pos') \<Rightarrow>
                  (bind_err (reshape2 Z_indep n_assets) (\<lambda>Z_flat.
                   bind_err (matmul_T Z_flat n_assets L) (\<lambda>Z_rows.
                     let Z_corr = reshape3 Z_rows (nat batch_n_sims) (nat n_steps)
                     in asset_loop ws ps mus sigmas Z_corr dt [0 ..< n_assets]
                          (replicate (nat batch_n_sims) 0))),
                   pos')))"

subsection \<open>The batch scheduler\<close>

text \<open>The index range of batch \<open>batch_idx\<close>, as the loop of \<^verbatim>\<open>run_5M_simulation\<close>
  computes it.\<close>

definition batch_start :: "engine \<Rightarrow> nat \<Rightarrow> int" where
  "batch_start eng batch_idx = int batch_idx * batch_size eng"

definition batch_end :: "engine \<Rightarrow> nat \<Rightarrow> int" where
  "batch_end eng batch_idx = min (batch_start eng batch_idx + batch_size eng) (n_simulations eng)"

record results =
  final_values :: "real list"
  returns :: "real option list"
  metrics :: "metrics option"
  config :: portfolio_config

text \<open>The loop over the batches: the state is the result array and the position of
  the generator. An exception of a batch leaves the loop; nothing is caught.\<close>

fun run_batches :: "rng \<Rightarrow> engine \<Rightarrow> portfolio_config \<Rightarrow> real \<Rightarrow> nat list \<Rightarrow> real list \<times> nat \<Rightarrow>
    (error + real list) \<times> nat" where
  "run_batches g eng cfg T [] (all_final_values, pos) = (Inr all_final_values, pos)"
| "run_batches g eng cfg T (batch_idx # rest) (all_final_values, pos) =
     (let b_start = batch_start eng batch_idx;
          b_end = batch_end eng batch_idx;
          batch_n_sims = b_end - b_start
      in case simulate_portfolio_batch g (weights cfg) (initial_prices cfg) (expected_returns cfg)
                (volatilities cfg) (correlation_matrix cfg) T batch_n_sims pos of
           (Inl e, pos') \<Rightarrow> (Inl e, pos')
         | (Inr batch_final_values, pos') \<Rightarrow>
             (case slice_assign all_final_values b_start b_end batch_final_values of
                Inl e \<Rightarrow> (Inl e, pos')
              | Inr all' \<Rightarrow> run_batches g eng cfg T rest (all', pos')))"

text \<open>\<^verbatim>\<open>run_5M_simulation\<close>. The returns are \<open>None\<close> (not finite) when the initial
  portfolio value is zero; the metrics of such returns are not numbers and are not
  modelled (\<open>metrics = None\<close>).\<close>

definition run_5M_simulation :: "rng \<Rightarrow> engine \<Rightarrow> portfolio_config \<Rightarrow> real \<Rightarrow> nat \<Rightarrow>
    (error + results) \<times> nat" where
  "run_5M_simulation g eng cfg time_horizon pos =
     (case np_mul (weights cfg) (initial_prices cfg) of
        Inl e \<Rightarrow> (Inl e, pos)
      | Inr weighted \<Rightarrow>
          let initial_portfolio_value = sum_list weighted
          in if n_simulations eng < 0 then (Inl ValueError, pos)
             else
               (case run_batches g eng cfg time_horizon [0 ..< nat (n_batches eng)]
                       (replicate (nat (n_simulations eng)) 0, pos) of
                  (Inl e, pos') \<Rightarrow> (Inl e, pos')
                | (Inr all_final_values, pos') \<Rightarrow>
                    let rets = map (\<lambda>v. np_div (v - initial_portfolio_value) initial_portfolio_value)
                                 all_final_values
                    in (case those rets of
                          None \<Rightarrow>
                            (Inr \<lparr> final_values = all_final_values, returns = rets,
                                   metrics = None, config = cfg \<rparr>, pos')
                        | Some rs \<Rightarrow>
                            (case calculate_metrics rs of
                               Inl e \<Rightarrow> (Inl e, pos')
                             | Inr m \<Rightarrow>
                                 (Inr \<lparr> final_values = all_final_values, returns = rets,
                                        metrics = Some m, config = cfg \<rparr>, pos')))))"

section \<open>The value of one path\<close>

text \<open>The quantities of \<^verbatim>\<open>simulate_portfolio_batch\<close> for a single path, written with
  sums instead of array operations. A path whose draws start at position \<open>off\<close> of the
  stream uses, at step \<open>t\<close>, the \<open>n\<close> draws from \<open>off + t * n\<close> on; \<open>shock\<close> is
  entry \<open>i\<close> of that row of draws multiplied by the transposed Cholesky factor.\<close>

definition shock :: "rng \<Rightarrow> real list list \<Rightarrow> nat \<Rightarrow> nat \<Rightarrow> nat \<Rightarrow> nat \<Rightarrow> real" where
  "shock g L n off t i = dot (map g [off + t * n ..< off + t * n + n]) (L ! i)"

definition step_log_return :: "real \<Rightarrow> real \<Rightarrow> real \<Rightarrow> real" where
  "step_log_return mu sigma z = (mu - 0.5 * sigma\<^sup>2) * (1 / 252) + sigma * sqrt (1 / 252) * z"

definition terminal_price :: "rng \<Rightarrow> real list list \<Rightarrow> nat \<Rightarrow> nat \<Rightarrow> real \<Rightarrow> real \<Rightarrow> real \<Rightarrow> nat \<Rightarrow> nat \<Rightarrow> real" where
  "terminal_price g L n n_steps P0 mu sigma off i =
     P0 * exp (sum_list (map (\<lambda>t. step_log_return mu sigma (shock g L n off t i)) [0 ..< n_steps]))"

definition path_value :: "rng \<Rightarrow> real list \<Rightarrow> real list \<Rightarrow> real list \<Rightarrow> real list \<Rightarrow> real list list \<Rightarrow>
    nat \<Rightarrow> nat \<Rightarrow> real" where
  "path_value g ws ps mus sigmas L n_steps off =
     sum_list (map (\<lambda>i. terminal_price g L (length ws) n_steps (ps ! i) (mus ! i) (sigmas ! i) off i * (ws ! i))
                 [0 ..< length ws])"

text \<open>The contribution of asset \<open>i\<close> to the value of a path, from the block \<open>zb\<close> of
  correlated shocks of that path (one row per step).\<close>

definition contrib :: "real list \<Rightarrow> real list \<Rightarrow> real list \<Rightarrow> real list \<Rightarrow> nat \<Rightarrow> real list list \<Rightarrow> real" where
  "contrib ws ps mus sigmas i zb =
     ps ! i * exp (sum_list (map (\<lambda>row. step_log_return (mus ! i) (sigmas ! i) (row ! i)) zb)) * (ws ! i)"

text \<open>The number of steps of a horizon of \<open>T\<close> years, the number of draws one path
  consumes, the value of path \<open>q\<close> of a run that starts at position \<open>pos\<close> of the
  stream, and the initial portfolio value.\<close>

definition steps_of :: "real \<Rightarrow> nat" where
  "steps_of T = nat \<lfloor>T * 252\<rfloor>"

definition draws_per_path :: "portfolio_config \<Rightarrow> real \<Rightarrow> nat" where
  "draws_per_path cfg T = steps_of T * length (weights cfg)"

definition path_of :: "rng \<Rightarrow> portfolio_config \<Rightarrow> real list list \<Rightarrow> real \<Rightarrow> nat \<Rightarrow> nat \<Rightarrow> real" where
  "path_of g cfg L T pos q =
     path_value g (weights cfg) (initial_prices cfg) (expected_returns cfg) (volatilities cfg) L
       (steps_of T) (pos + q * draws_per_path cfg T)"

definition initial_value :: "portfolio_config \<Rightarrow> real" where
  "initial_value cfg = sum_list (map2 (*) (weights cfg) (initial_prices cfg))"

section \<open>Positive semi-definite matrices\<close>




section \<open>Facts about the array helpers\<close>

lemma bind_err_Inr: "bind_err (Inr x) f = f x"
  by (simp add: bind_err_def)

lemma bind_err_Inl: "bind_err (Inl e) f = Inl e"
  by (simp add: bind_err_def)

lemma py_int_nonneg: "0 \<le> x \<Longrightarrow> py_int x = \<lfloor>x\<rfloor>"
  by (simp add: py_int_def)

lemma rank_in_range:
  assumes "0 < n" "0 \<le> p" "p < 1"
  shows "nat \<lfloor>real n * p\<rfloor> < n"
proof -
  have "real n * p < real n" using assms by simp
  then have "\<lfloor>real n * p\<rfloor> < int n" by (simp add: floor_less_iff)
  moreover have "0 \<le> \<lfloor>real n * p\<rfloor>" using assms by simp
  ultimately show ?thesis by (simp add: nat_less_iff)
qed

lemma np_get_nat: "i < length xs \<Longrightarrow> np_get xs (int i) = Inr (xs ! i)"
  by (simp add: np_get_def)

lemma np_get_rank:
  assumes "0 < length xs" "0 \<le> p" "p < 1"
  shows "np_get xs (py_int (real (length xs) * p)) = Inr (xs ! nat \<lfloor>real (length xs) * p\<rfloor>)"
proof -
  have nn: "0 \<le> real (length xs) * p" using assms by simp
  have lt: "nat \<lfloor>real (length xs) * p\<rfloor> < length xs" using assms by (rule rank_in_range)
  have "0 \<le> \<lfloor>real (length xs) * p\<rfloor>" using nn by simp
  with lt show ?thesis
    by (simp add: np_get_def py_int_nonneg [OF nn])
qed

lemma np_get_empty: "np_get [] i = Inl IndexError"
  by (simp add: np_get_def)

lemma np_slice_prefix:
  assumes "0 \<le> x"
  shows "np_slice xs 0 (py_int x) = take (nat \<lfloor>x\<rfloor>) xs"
  using assms by (simp add: np_slice_def slice_bound_def py_int_nonneg Let_def min_def)

section \<open>The metrics record in closed form\<close>

lemma calculate_metrics_nonempty:
  assumes "rs \<noteq> []"
  shows "calculate_metrics rs =
     Inr \<lparr> mean_return = np_mean rs,
            median_return = np_median rs,
            std_return = np_std rs,
            percentile_1 = spec_percentile rs 0.01,
            percentile_5 = spec_percentile rs 0.05,
            percentile_25 = spec_percentile rs 0.25,
            percentile_75 = spec_percentile rs 0.75,
            percentile_95 = spec_percentile rs 0.95,
            percentile_99 = spec_percentile rs 0.99,
            VaR_95 = spec_percentile rs 0.05,
            VaR_99 = spec_percentile rs 0.01,
            VaR_999 = spec_percentile rs 0.001,
            CVaR_95 = spec_cvar rs 0.05,
            CVaR_99 = spec_cvar rs 0.01,
            CVaR_999 = spec_cvar rs 0.001,
            prob_loss = frac (\<lambda>r. r < 0) rs,
            prob_loss_10 = frac (\<lambda>r. r < - 0.10) rs,
            prob_loss_20 = frac (\<lambda>r. r < - 0.20) rs,
            prob_loss_50 = frac (\<lambda>r. r < - 0.50) rs,
            prob_profit = frac (\<lambda>r. r > 0) rs,
            prob_profit_10 = frac (\<lambda>r. r > 0.10) rs,
            prob_profit_20 = frac (\<lambda>r. r > 0.20) rs,
            prob_profit_50 = frac (\<lambda>r. r > 0.50) rs,
            skewness = calculate_skewness rs,
            kurtosis = calculate_kurtosis rs,
            sharpe_ratio =
              (case np_std rs of
                 Some s \<Rightarrow> if s > 0 then map_option (\<lambda>m. m / s) (np_mean rs) else Some 0
               | None \<Rightarrow> Some 0) \<rparr>"
proof -
  have pos: "0 < length (sort rs)" using assms by simp
  have g: "\<And>p. 0 \<le> p \<Longrightarrow> p < 1 \<Longrightarrow>
      np_get (sort rs) (py_int (real (length (sort rs)) * p)) = Inr (spec_percentile rs p)"
    using np_get_rank [OF pos] by (simp add: spec_percentile_def)
  have s: "\<And>p. 0 \<le> p \<Longrightarrow>
      np_mean (np_slice (sort rs) 0 (py_int (real (length (sort rs)) * p))) = spec_cvar rs p"
    by (simp add: np_slice_prefix spec_cvar_def)
  note gs = g [of "0.01"] g [of "0.05"] g [of "0.25"] g [of "0.75"] g [of "0.95"] g [of "0.99"]
    g [of "0.001"] s [of "0.05"] s [of "0.01"] s [of "0.001"]
  have gs': "np_get (sort rs) (py_int (real (length (sort rs)) * 0.01)) = Inr (spec_percentile rs 0.01)"
    "np_get (sort rs) (py_int (real (length (sort rs)) * 0.05)) = Inr (spec_percentile rs 0.05)"
    "np_get (sort rs) (py_int (real (length (sort rs)) * 0.25)) = Inr (spec_percentile rs 0.25)"
    "np_get (sort rs) (py_int (real (length (sort rs)) * 0.75)) = Inr (spec_percentile rs 0.75)"
    "np_get (sort rs) (py_int (real (length (sort rs)) * 0.95)) = Inr (spec_percentile rs 0.95)"
    "np_get (sort rs) (py_int (real (length (sort rs)) * 0.99)) = Inr (spec_percentile rs 0.99)"
    "np_get (sort rs) (py_int (real (length (sort rs)) * 0.001)) = Inr (spec_percentile rs 0.001)"
    "np_mean (np_slice (sort rs) 0 (py_int (real (length (sort rs)) * 0.05))) = spec_cvar rs 0.05"
    "np_mean (np_slice (sort rs) 0 (py_int (real (length (sort rs)) * 0.01))) = spec_cvar rs 0.01"
    "np_mean (np_slice (sort rs) 0 (py_int (real (length (sort rs)) * 0.001))) = spec_cvar rs 0.001"
    using gs by simp_all
  show ?thesis
    unfolding calculate_metrics_def Let_def gs' bind_err_Inr ..
qed

lemma calculate_metrics_empty: "calculate_metrics [] = Inl IndexError"
  by (simp add: calculate_metrics_def np_get_empty bind_err_def)

lemma spec_percentile_member:
  assumes "rs \<noteq> []" "0 \<le> p" "p < 1"
  shows "spec_percentile rs p \<in> set rs"
proof -
  have "nat \<lfloor>real (length rs) * p\<rfloor> < length (sort rs)"
    using assms rank_in_range [of "length rs" p] by simp
  then have "sort rs ! nat \<lfloor>real (length rs) * p\<rfloor> \<in> set (sort rs)"
    by (rule nth_mem)
  then show ?thesis by (simp add: spec_percentile_def)
qed

lemma sorted_take_le_drop:
  assumes "sorted xs" "x \<in> set (take k xs)" "y \<in> set (drop k xs)"
  shows "x \<le> (y::real)"
proof -
  have "sorted (take k xs @ drop k xs)" using assms(1) by simp
  then show ?thesis using assms(2,3) unfolding sorted_append by blast
qed

lemma spec_cvar_None_iff:
  assumes "0 < p"
  shows "spec_cvar rs p = None \<longleftrightarrow> real (length rs) < 1 / p"
proof -
  have "spec_cvar rs p = None \<longleftrightarrow> take (nat \<lfloor>real (length rs) * p\<rfloor>) (sort rs) = []"
    by (simp add: spec_cvar_def np_mean_def)
  also have "\<dots> \<longleftrightarrow> nat \<lfloor>real (length rs) * p\<rfloor> = 0 \<or> rs = []"
    using length_sort [of "\<lambda>x. x" rs] by (auto simp: take_eq_Nil simp del: length_sort)
  also have "\<dots> \<longleftrightarrow> \<lfloor>real (length rs) * p\<rfloor> < 1"
    by (cases "rs = []") auto
  also have "\<dots> \<longleftrightarrow> real (length rs) * p < 1"
    by (simp add: floor_less_iff)
  also have "\<dots> \<longleftrightarrow> real (length rs) < 1 / p"
    using assms by (simp add: field_simps)
  finally show ?thesis .
qed

lemma calculate_metrics_tail_fields:
  assumes "rs \<noteq> []"
  shows "\<exists>m. calculate_metrics rs = Inr m
    \<and> CVaR_95 m = spec_cvar rs 0.05 \<and> CVaR_99 m = spec_cvar rs 0.01
    \<and> CVaR_999 m = spec_cvar rs 0.001"
  unfolding calculate_metrics_nonempty [OF assms] by simp

lemma spec_cvar_Some_iff:
  assumes "0 < p"
  shows "(\<exists>r. spec_cvar rs p = Some r) \<longleftrightarrow> 1 / p \<le> real (length rs)"
proof -
  have "(\<exists>r. spec_cvar rs p = Some r) \<longleftrightarrow> spec_cvar rs p \<noteq> None" by simp
  also have "\<dots> \<longleftrightarrow> \<not> real (length rs) < 1 / p"
    using spec_cvar_None_iff [OF assms, of rs] by simp
  finally show ?thesis by (simp add: not_less)
qed

lemma cvar_cases:
  "((\<exists>m r. calculate_metrics rs = Inr m \<and> CVaR_95 m = Some r) \<longleftrightarrow> 1 / 0.05 \<le> real (length rs))
 \<and> ((\<exists>m r. calculate_metrics rs = Inr m \<and> CVaR_99 m = Some r) \<longleftrightarrow> 1 / 0.01 \<le> real (length rs))
 \<and> ((\<exists>m r. calculate_metrics rs = Inr m \<and> CVaR_999 m = Some r) \<longleftrightarrow> 1 / 0.001 \<le> real (length rs))"
proof (cases "rs = []")
  case True
  then show ?thesis by (simp add: calculate_metrics_empty)
next
  case False
  from calculate_metrics_tail_fields [OF False] obtain m where
    m: "calculate_metrics rs = Inr m" and
    c: "CVaR_95 m = spec_cvar rs 0.05" "CVaR_99 m = spec_cvar rs 0.01"
       "CVaR_999 m = spec_cvar rs 0.001"
    by blast
  have 1: "(\<exists>m r. calculate_metrics rs = Inr m \<and> CVaR_95 m = Some r)
      \<longleftrightarrow> (\<exists>r. spec_cvar rs 0.05 = Some r)"
    unfolding m using c(1) by simp
  have 2: "(\<exists>m r. calculate_metrics rs = Inr m \<and> CVaR_99 m = Some r)
      \<longleftrightarrow> (\<exists>r. spec_cvar rs 0.01 = Some r)"
    unfolding m using c(2) by simp
  have 3: "(\<exists>m r. calculate_metrics rs = Inr m \<and> CVaR_999 m = Some r)
      \<longleftrightarrow> (\<exists>r. spec_cvar rs 0.001 = Some r)"
    unfolding m using c(3) by simp
  have p: "(0::real) < 0.05" "(0::real) < 0.01" "(0::real) < 0.001" by simp_all
  show ?thesis
    unfolding 1 2 3 spec_cvar_Some_iff [OF p(1)] spec_cvar_Some_iff [OF p(2)]
      spec_cvar_Some_iff [OF p(3)] by (intro conjI refl)
qed

lemma cvar_empty_slice:
  assumes "rs \<noteq> []" "\<lfloor>real (length rs) * p\<rfloor> = 0"
  shows "spec_cvar rs p = np_mean [] \<and> spec_cvar rs p = None"
  using assms(2) by (simp add: spec_cvar_def np_mean_def)

text \<open>Claim C2. For every returns array of length \<open>n \<ge> 1\<close>, \<^verbatim>\<open>_calculate_metrics\<close> returns
  a record (it does not raise) whose percentiles are the nearest-rank values
  \<open>sorted_returns[floor(n * p)]\<close>, whose VaR entries are the percentiles at 0.05, 0.01 and
  0.001, and whose CVaR entries are the means of \<open>sorted_returns[0 : floor(n * p)]\<close>. Each
  percentile is an element of the array (nothing is interpolated), and every element of
  the averaged slice is at most every element outside it (the slice is the worst part).\<close>

theorem metrics_nearest_rank:
  assumes "rs \<noteq> []"
  shows "\<exists>m. calculate_metrics rs = Inr m
    \<and> percentile_1 m = spec_percentile rs 0.01
    \<and> percentile_5 m = spec_percentile rs 0.05
    \<and> percentile_25 m = spec_percentile rs 0.25
    \<and> percentile_75 m = spec_percentile rs 0.75
    \<and> percentile_95 m = spec_percentile rs 0.95
    \<and> percentile_99 m = spec_percentile rs 0.99
    \<and> VaR_95 m = spec_percentile rs 0.05
    \<and> VaR_99 m = spec_percentile rs 0.01
    \<and> VaR_999 m = spec_percentile rs 0.001
    \<and> CVaR_95 m = spec_cvar rs 0.05
    \<and> CVaR_99 m = spec_cvar rs 0.01
    \<and> CVaR_999 m = spec_cvar rs 0.001
    \<and> set [percentile_1 m, percentile_5 m, percentile_25 m, percentile_75 m,
            percentile_95 m, percentile_99 m, VaR_95 m, VaR_99 m, VaR_999 m] \<subseteq> set rs
    \<and> (\<forall>p x y. x \<in> set (take (nat \<lfloor>real (length rs) * p\<rfloor>) (sort rs))
          \<longrightarrow> y \<in> set (drop (nat \<lfloor>real (length rs) * p\<rfloor>) (sort rs)) \<longrightarrow> x \<le> y)"
proof -
  have mem: "\<And>p. 0 \<le> p \<Longrightarrow> p < 1 \<Longrightarrow> spec_percentile rs p \<in> set rs"
    using assms by (rule spec_percentile_member)
  have worst: "\<forall>p x y. x \<in> set (take (nat \<lfloor>real (length rs) * p\<rfloor>) (sort rs))
          \<longrightarrow> y \<in> set (drop (nat \<lfloor>real (length rs) * p\<rfloor>) (sort rs)) \<longrightarrow> x \<le> y"
    using sorted_take_le_drop [of "sort rs"] by auto
  show ?thesis
    unfolding calculate_metrics_nonempty [OF assms]
    using worst by (simp add: mem)
qed

theorem metrics_nearest_rank_witness:
  "[3, 1, 2 :: real] \<noteq> [] \<and>
   (\<exists>m. calculate_metrics [3, 1, 2] = Inr m \<and> percentile_1 m = 1 \<and> percentile_75 m = 3
      \<and> VaR_95 m = 1 \<and> CVaR_95 m = None)"
proof -
  have ne: "[3, 1, 2 :: real] \<noteq> []" by simp
  from metrics_nearest_rank [OF ne] obtain m where
    m: "calculate_metrics [3, 1, 2] = Inr m" and
    f: "percentile_1 m = spec_percentile [3, 1, 2] 0.01"
       "percentile_75 m = spec_percentile [3, 1, 2] 0.75"
       "VaR_95 m = spec_percentile [3, 1, 2] 0.05"
       "CVaR_95 m = spec_cvar [3, 1, 2] 0.05"
    by blast
  have v: "spec_percentile [3, 1, 2] 0.01 = 1" "spec_percentile [3, 1, 2] 0.75 = 3"
    "spec_percentile [3, 1, 2] 0.05 = 1" "spec_cvar [3, 1, 2] 0.05 = None"
    by (simp_all add: spec_percentile_def spec_cvar_def np_mean_def)
  have "\<exists>m. calculate_metrics [3, 1, 2] = Inr m \<and> percentile_1 m = 1 \<and> percentile_75 m = 3
      \<and> VaR_95 m = 1 \<and> CVaR_95 m = None"
    using m f unfolding v by blast
  with ne show ?thesis by (rule conjI)
qed

text \<open>Claim C10 (as stated, it fails). The empty returns array has \<open>floor(n * p) = 0\<close> for
  each tail fraction \<open>p\<close> of 0.05, 0.01 and 0.001, yet \<^verbatim>\<open>_calculate_metrics\<close> computes no
  CVaR for it, neither as the mean of an empty slice nor otherwise: the first index
  expression, \<^verbatim>\<open>returns_sorted[int(n * 0.01)]\<close>, raises \<^verbatim>\<open>IndexError\<close> and no record is
  returned.\<close>

theorem cvar_not_computed_for_empty_array:
  "\<lfloor>real (length ([] :: real list)) * 0.05\<rfloor> = 0
 \<and> \<lfloor>real (length ([] :: real list)) * 0.01\<rfloor> = 0
 \<and> \<lfloor>real (length ([] :: real list)) * 0.001\<rfloor> = 0
 \<and> calculate_metrics [] = Inl IndexError
 \<and> (\<nexists>m. calculate_metrics [] = Inr m)"
  by (simp add: calculate_metrics_empty)

text \<open>Claim C10, amended. For every returns array of length \<open>n \<ge> 1\<close> with
  \<open>floor(n * p) = 0\<close> for a tail fraction \<open>p\<close> of 0.05, 0.01 or 0.001,
  \<^verbatim>\<open>_calculate_metrics\<close> returns a record whose corresponding CVaR is the mean of an
  empty slice, which is not a real number (\<open>None\<close>); and for an array of any length it
  yields a real CVaR exactly when \<open>n \<ge> 1 / p\<close> (an empty array raises before any CVaR
  is built).\<close>

theorem cvar_real_only_with_enough_paths:
  "(rs \<noteq> [] \<and> \<lfloor>real (length rs) * 0.05\<rfloor> = 0 \<longrightarrow>
      (\<exists>m. calculate_metrics rs = Inr m \<and> CVaR_95 m = np_mean [] \<and> CVaR_95 m = None))
 \<and> (rs \<noteq> [] \<and> \<lfloor>real (length rs) * 0.01\<rfloor> = 0 \<longrightarrow>
      (\<exists>m. calculate_metrics rs = Inr m \<and> CVaR_99 m = np_mean [] \<and> CVaR_99 m = None))
 \<and> (rs \<noteq> [] \<and> \<lfloor>real (length rs) * 0.001\<rfloor> = 0 \<longrightarrow>
      (\<exists>m. calculate_metrics rs = Inr m \<and> CVaR_999 m = np_mean [] \<and> CVaR_999 m = None))
 \<and> ((\<exists>m r. calculate_metrics rs = Inr m \<and> CVaR_95 m = Some r) \<longleftrightarrow> 1 / 0.05 \<le> real (length rs))
 \<and> ((\<exists>m r. calculate_metrics rs = Inr m \<and> CVaR_99 m = Some r) \<longleftrightarrow> 1 / 0.01 \<le> real (length rs))
 \<and> ((\<exists>m r. calculate_metrics rs = Inr m \<and> CVaR_999 m = Some r) \<longleftrightarrow> 1 / 0.001 \<le> real (length rs))"
proof -
  have 1: "\<exists>m. calculate_metrics rs = Inr m \<and> CVaR_95 m = np_mean [] \<and> CVaR_95 m = None"
    if "rs \<noteq> [] \<and> \<lfloor>real (length rs) * 0.05\<rfloor> = 0"
  proof -
    from that have ne: "rs \<noteq> []" and z: "\<lfloor>real (length rs) * 0.05\<rfloor> = 0" by blast+
    from calculate_metrics_tail_fields [OF ne] obtain m where
      "calculate_metrics rs = Inr m" "CVaR_95 m = spec_cvar rs 0.05" by blast
    then show ?thesis using cvar_empty_slice [OF ne z] by (simp add: np_mean_def)
  qed
  have 2: "\<exists>m. calculate_metrics rs = Inr m \<and> CVaR_99 m = np_mean [] \<and> CVaR_99 m = None"
    if "rs \<noteq> [] \<and> \<lfloor>real (length rs) * 0.01\<rfloor> = 0"
  proof -
    from that have ne: "rs \<noteq> []" and z: "\<lfloor>real (length rs) * 0.01\<rfloor> = 0" by blast+
    from calculate_metrics_tail_fields [OF ne] obtain m where
      "calculate_metrics rs = Inr m" "CVaR_99 m = spec_cvar rs 0.01" by blast
    then show ?thesis using cvar_empty_slice [OF ne z] by (simp add: np_mean_def)
  qed
  have 3: "\<exists>m. calculate_metrics rs = Inr m \<and> CVaR_999 m = np_mean [] \<and> CVaR_999 m = None"
    if "rs \<noteq> [] \<and> \<lfloor>real (length rs) * 0.001\<rfloor> = 0"
  proof -
    from that have ne: "rs \<noteq> []" and z: "\<lfloor>real (length rs) * 0.001\<rfloor> = 0" by blast+
    from calculate_metrics_tail_fields [OF ne] obtain m where
      "calculate_metrics rs = Inr m" "CVaR_999 m = spec_cvar rs 0.001" by blast
    then show ?thesis using cvar_empty_slice [OF ne z] by (simp add: np_mean_def)
  qed
  from 1 2 3 cvar_cases [of rs] show ?thesis by (intro conjI impI) blast+
qed

theorem cvar_real_only_with_enough_paths_witness:
  "[1, 2 :: real] \<noteq> [] \<and> \<lfloor>real (length [1, 2 :: real]) * 0.05\<rfloor> = 0
   \<and> (\<exists>m. calculate_metrics [1, 2] = Inr m \<and> CVaR_95 m = np_mean [] \<and> CVaR_95 m = None)"
proof -
  have h: "[1, 2 :: real] \<noteq> [] \<and> \<lfloor>real (length [1, 2 :: real]) * 0.05\<rfloor> = 0" by simp
  from cvar_real_only_with_enough_paths [of "[1, 2]"]
  have "[1, 2 :: real] \<noteq> [] \<and> \<lfloor>real (length [1, 2 :: real]) * 0.05\<rfloor> = 0 \<longrightarrow>
      (\<exists>m. calculate_metrics [1, 2] = Inr m \<and> CVaR_95 m = np_mean [] \<and> CVaR_95 m = None)"
    by (rule conjunct1)
  from this h have "\<exists>m. calculate_metrics [1, 2] = Inr m \<and> CVaR_95 m = np_mean [] \<and> CVaR_95 m = None"
    by (rule mp)
  with h show ?thesis by blast
qed

section \<open>The percentile table\<close>

lemma sort_Nil_iff: "(sort xs = []) = (xs = [])"
proof -
  have "length (sort xs) = 0 \<longleftrightarrow> length xs = 0" by simp
  then show ?thesis unfolding length_0_conv .
qed

lemma np_percentile_nonempty: "rs \<noteq> [] \<Longrightarrow> np_percentile rs pct = Inr (lerp_percentile (sort rs) pct)"
  by (simp add: np_percentile_def Let_def sort_Nil_iff)

lemma percentile_rows_nonempty:
  "rs \<noteq> [] \<Longrightarrow>
   percentile_rows rs pcts = Inr (map (\<lambda>pct. (pct, lerp_percentile (sort rs) (real pct))) pcts)"
  by (induction pcts) (simp_all add: np_percentile_nonempty bind_err_Inr)

lemma lookup_percentile_nonempty:
  assumes "rs \<noteq> []" "pct \<in> set [1, 5, 10, 25, 50, 75, 90, 95, 99]"
  shows "lookup_percentile rs pct = Inr (Some (lerp_percentile (sort rs) (real pct)))"
proof -
  have "map_of (map (\<lambda>pct. (pct, lerp_percentile (sort rs) (real pct))) [1, 5, 10, 25, 50, 75, 90, 95, 99]) pct
      = Some (lerp_percentile (sort rs) (real pct))"
    using assms(2) unfolding map_of_map_restrict by (simp only: restrict_in o_apply)
  then show ?thesis
    by (simp only: lookup_percentile_def export_percentiles_def
        percentile_rows_nonempty [OF assms(1)] bind_err_Inr)
qed

lemma lerp_between:
  assumes "sorted s" "s \<noteq> []" "0 \<le> pct" "pct \<le> 100"
  defines "lo \<equiv> nat \<lfloor>real (length s - 1) * (pct / 100)\<rfloor>"
  defines "hi \<equiv> min (lo + 1) (length s - 1)"
  shows "s ! lo \<le> lerp_percentile s pct \<and> lerp_percentile s pct \<le> s ! hi"
proof -
  define h where "h = real (length s - 1) * (pct / 100)"
  define g where "g = h - real lo"
  have lo_h: "lo = nat \<lfloor>h\<rfloor>" unfolding lo_def h_def ..
  have h0: "0 \<le> h" using assms(3) by (simp add: h_def)
  have "pct / 100 \<le> 1" using assms(4) by simp
  then have "real (length s - 1) * (pct / 100) \<le> real (length s - 1) * 1"
    by (intro mult_left_mono) simp_all
  then have h1: "h \<le> real (length s - 1)" by (simp add: h_def)
  have lo_eq: "real lo = of_int \<lfloor>h\<rfloor>" using h0 by (simp add: lo_h)
  have g0: "0 \<le> g" unfolding g_def lo_eq by linarith
  have g1: "g \<le> 1" unfolding g_def lo_eq by linarith
  have fl: "\<lfloor>h\<rfloor> \<le> int (length s - 1)" using h1 by (simp add: floor_le_iff)
  have lo_le: "lo \<le> length s - 1" unfolding lo_h nat_le_iff by (rule fl)
  have "0 < length s" using assms(2) by simp
  then have "length s - 1 < length s" by simp
  then have hi_lt: "hi < length s" by (simp add: hi_def)
  have lo_hi: "lo \<le> hi" using lo_le by (simp add: hi_def)
  have mono: "s ! lo \<le> s ! hi" using assms(1) lo_hi hi_lt by (rule sorted_nth_mono)
  have v: "lerp_percentile s pct = s ! lo + g * (s ! hi - s ! lo)"
    unfolding lerp_percentile_def Let_def lo_def hi_def g_def h_def ..
  have "0 \<le> g * (s ! hi - s ! lo)" using g0 mono by simp
  moreover have "g * (s ! hi - s ! lo) \<le> 1 * (s ! hi - s ! lo)"
    using g1 mono by (intro mult_right_mono) simp_all
  ultimately show ?thesis unfolding v by simp
qed

lemma lerp_whole:
  assumes "s \<noteq> []" "100 dvd (length s - 1) * pct" "pct < 100"
  shows "lerp_percentile s (real pct) = s ! nat \<lfloor>real (length s) * (real pct / 100)\<rfloor>"
proof -
  from assms(1) obtain m where m: "length s = Suc m" by (cases s) auto
  from assms(2) obtain k where k: "m * pct = 100 * k" unfolding m by (auto simp: dvd_def)
  have "real (m * pct) = real (100 * k)" by (simp only: k)
  then have mk: "real m * real pct = 100 * real k" by simp
  have "real (length s - 1) * (real pct / 100) = (real m * real pct) / 100"
    unfolding m by simp
  then have h: "real (length s - 1) * (real pct / 100) = real k" unfolding mk by simp
  have lerp: "lerp_percentile s (real pct) = s ! k"
    unfolding lerp_percentile_def Let_def h by simp
  have "real (length s) * (real pct / 100) = (real m * real pct) / 100 + real pct / 100"
    unfolding m by (simp add: field_simps)
  then have e: "real (length s) * (real pct / 100) = real k + real pct / 100" unfolding mk by simp
  have "0 \<le> real pct / 100" "real pct / 100 < 1" using assms(3) by simp_all
  then have "\<lfloor>real k + real pct / 100\<rfloor> = int k" by (simp add: floor_eq_iff)
  then have "nat \<lfloor>real (length s) * (real pct / 100)\<rfloor> = k" unfolding e by simp
  then show ?thesis using lerp by (simp only:)
qed

text \<open>Claim C9 (as stated, it fails). On the returns \<open>[0, 1]\<close> the metrics record has
  \<open>percentile_25 = 0\<close> (nearest rank) while the exported table has \<open>0.25\<close> at 25%
  (\<^verbatim>\<open>np.percentile\<close>, linear interpolation).\<close>

theorem exported_percentile_contradicts_metrics:
  "metric_of percentile_25 [0, 1] = Inr 0 \<and> lookup_percentile [0, 1] 25 = Inr (Some (1 / 4))"
proof -
  have ne: "[0, 1 :: real] \<noteq> []" by simp
  have 1: "metric_of percentile_25 [0, 1] = Inr 0"
    by (simp add: metric_of_def calculate_metrics_nonempty [OF ne] bind_err_Inr spec_percentile_def)
  have mem: "(25 :: nat) \<in> set [1, 5, 10, 25, 50, 75, 90, 95, 99]" by simp
  have 2: "lookup_percentile [0, 1] 25 = Inr (Some (1 / 4))"
    unfolding lookup_percentile_nonempty [OF ne mem]
    by (simp add: lerp_percentile_def Let_def)
  from 1 2 show ?thesis ..
qed

lemma metrics_percentile_fields:
  assumes "rs \<noteq> []" and "pct \<in> {1, 5, 25, 75, 95, 99}"
  shows "\<exists>m. calculate_metrics rs = Inr m
            \<and> metrics_percentile m pct = Some (spec_percentile rs (real pct / 100))"
proof -
  have "\<exists>m. calculate_metrics rs = Inr m
    \<and> percentile_1 m = spec_percentile rs (real 1 / 100)
    \<and> percentile_5 m = spec_percentile rs (real 5 / 100)
    \<and> percentile_25 m = spec_percentile rs (real 25 / 100)
    \<and> percentile_75 m = spec_percentile rs (real 75 / 100)
    \<and> percentile_95 m = spec_percentile rs (real 95 / 100)
    \<and> percentile_99 m = spec_percentile rs (real 99 / 100)"
    unfolding calculate_metrics_nonempty [OF assms(1)] by simp
  then obtain m where m: "calculate_metrics rs = Inr m"
    and f: "percentile_1 m = spec_percentile rs (real 1 / 100)"
       "percentile_5 m = spec_percentile rs (real 5 / 100)"
       "percentile_25 m = spec_percentile rs (real 25 / 100)"
       "percentile_75 m = spec_percentile rs (real 75 / 100)"
       "percentile_95 m = spec_percentile rs (real 95 / 100)"
       "percentile_99 m = spec_percentile rs (real 99 / 100)"
    by blast
  have "metrics_percentile m pct = Some (spec_percentile rs (real pct / 100))"
    using assms(2) f by (auto simp: metrics_percentile_def)
  with m show ?thesis by blast
qed

text \<open>Claim C9, amended. For a non-empty returns array and a percentile that is in both
  the table and the metrics record (1, 5, 25, 75, 95, 99), the exported value is
  recomputed from the returns by linear interpolation between the two order statistics
  around rank \<open>(n - 1) * pct / 100\<close>: it lies between them, and it is the nearest-rank
  value \<open>sorted_returns[floor(n * pct / 100)]\<close> of the metrics record whenever
  \<open>(n - 1) * pct\<close> is a multiple of 100.\<close>

theorem exported_percentile_interpolates:
  assumes "rs \<noteq> []" and "pct \<in> {1, 5, 25, 75, 95, 99}"
  shows "lookup_percentile rs pct = Inr (Some (lerp_percentile (sort rs) (real pct)))
    \<and> sort rs ! nat \<lfloor>real (length rs - 1) * (real pct / 100)\<rfloor> \<le> lerp_percentile (sort rs) (real pct)
    \<and> lerp_percentile (sort rs) (real pct)
        \<le> sort rs ! min (nat \<lfloor>real (length rs - 1) * (real pct / 100)\<rfloor> + 1) (length rs - 1)
    \<and> (100 dvd (length rs - 1) * pct \<longrightarrow>
         (\<exists>m. calculate_metrics rs = Inr m
            \<and> metrics_percentile m pct = Some (lerp_percentile (sort rs) (real pct))))"
proof -
  have mem: "pct \<in> set [1, 5, 10, 25, 50, 75, 90, 95, 99]" using assms(2) by auto
  have 1: "lookup_percentile rs pct = Inr (Some (lerp_percentile (sort rs) (real pct)))"
    using assms(1) mem by (rule lookup_percentile_nonempty)
  have ne: "sort rs \<noteq> []" using assms(1) by (simp add: sort_Nil_iff)
  have rng: "0 \<le> real pct" "real pct \<le> 100" "pct < 100" using assms(2) by auto
  have 2: "sort rs ! nat \<lfloor>real (length rs - 1) * (real pct / 100)\<rfloor> \<le> lerp_percentile (sort rs) (real pct)
    \<and> lerp_percentile (sort rs) (real pct)
        \<le> sort rs ! min (nat \<lfloor>real (length rs - 1) * (real pct / 100)\<rfloor> + 1) (length rs - 1)"
    using lerp_between [OF sorted_sort ne rng(1,2)] by simp
  have 3: "\<exists>m. calculate_metrics rs = Inr m
            \<and> metrics_percentile m pct = Some (lerp_percentile (sort rs) (real pct))"
    if d: "100 dvd (length rs - 1) * pct"
  proof -
    have "100 dvd (length (sort rs) - 1) * pct" using d by simp
    from lerp_whole [OF ne this rng(3)]
    have w: "lerp_percentile (sort rs) (real pct) = spec_percentile rs (real pct / 100)"
      by (simp add: spec_percentile_def)
    show ?thesis unfolding w using assms by (rule metrics_percentile_fields)
  qed
  from 1 2 3 show ?thesis by blast
qed

theorem exported_percentile_interpolates_witness:
  "[0, 1, 2, 3, 4 :: real] \<noteq> [] \<and> (25 :: nat) \<in> {1, 5, 25, 75, 95, 99}
   \<and> 100 dvd (length [0, 1, 2, 3, 4 :: real] - 1) * 25
   \<and> lookup_percentile [0, 1, 2, 3, 4] 25 = Inr (Some 1)
   \<and> (\<exists>m. calculate_metrics [0, 1, 2, 3, 4] = Inr m \<and> metrics_percentile m 25 = Some 1)"
proof -
  have h: "[0, 1, 2, 3, 4 :: real] \<noteq> []" "(25 :: nat) \<in> {1, 5, 25, 75, 95, 99}"
    "100 dvd (length [0, 1, 2, 3, 4 :: real] - 1) * 25" by simp_all
  have v: "lerp_percentile (sort [0, 1, 2, 3, 4]) (real 25) = 1"
    by (simp add: lerp_percentile_def Let_def)
  from exported_percentile_interpolates [OF h(1,2)] h(3)
  have "lookup_percentile [0, 1, 2, 3, 4] 25 = Inr (Some 1)
     \<and> (\<exists>m. calculate_metrics [0, 1, 2, 3, 4] = Inr m \<and> metrics_percentile m 25 = Some 1)"
    unfolding v by blast
  with h show ?thesis by blast
qed

section \<open>Arrays filled from the stream\<close>

lemma map_upt_shift: "map F [a ..< a + n] = map (\<lambda>t. F (a + t)) [0 ..< n]"
  by (rule nth_equalityI) simp_all

lemma take_drop_map_upt:
  assumes "a + n \<le> k"
  shows "take n (drop a (map g [p ..< p + k])) = map g [p + a ..< p + a + n]"
proof -
  have "drop a (map g [p ..< p + k]) = map g [p + a ..< p + k]"
    by (simp add: drop_map)
  moreover have "take n [p + a ..< p + k] = [p + a ..< p + a + n]"
    using assms by (simp add: take_upt)
  ultimately show ?thesis by (simp add: take_map)
qed

lemma standard_normal_ok:
  assumes "0 \<le> d0" "0 \<le> d1"
  shows "standard_normal g d0 d1 (int n) pos =
    (Inr (map g [pos ..< pos + nat d0 * nat d1 * n]), pos + nat d0 * nat d1 * n)"
  using assms by (simp add: standard_normal_def Let_def)

lemma reshape2_stream:
  assumes "0 < n"
  shows "reshape2 (map g [p ..< p + r * n]) n =
    Inr (map (\<lambda>j. map g [p + j * n ..< p + j * n + n]) [0 ..< r])"
proof -
  have row: "take n (drop (j * n) (map g [p ..< p + r * n])) = map g [p + j * n ..< p + j * n + n]"
    if "j < r" for j
  proof -
    have "Suc j * n \<le> r * n" using that by (intro mult_le_mono1) simp
    then have "j * n + n \<le> r * n" by (simp add: add.commute)
    then show ?thesis by (rule take_drop_map_upt)
  qed
  have "map (\<lambda>j. take n (drop (j * n) (map g [p ..< p + r * n]))) [0 ..< r]
      = map (\<lambda>j. map g [p + j * n ..< p + j * n + n]) [0 ..< r]"
    by (rule map_cong [OF refl]) (simp add: row)
  then show ?thesis using assms by (simp add: reshape2_def)
qed

lemma matmul_T_ok:
  "n = length L \<Longrightarrow> matmul_T (map R [0 ..< r]) n L = Inr (map (\<lambda>j. map (dot (R j)) L) [0 ..< r])"
  by (simp add: matmul_T_def)

lemma reshape3_blocks:
  "reshape3 (map F [0 ..< b * t]) b t = map (\<lambda>q. map (\<lambda>u. F (q * t + u)) [0 ..< t]) [0 ..< b]"
proof -
  have blk: "take t (drop (q * t) (map F [0 ..< b * t])) = map (\<lambda>u. F (q * t + u)) [0 ..< t]"
    if "q < b" for q
  proof -
    have "Suc q * t \<le> b * t" using that by (intro mult_le_mono1) simp
    then have "q * t + t \<le> b * t" by (simp add: add.commute)
    from take_drop_map_upt [OF this, of F 0]
    have "take t (drop (q * t) (map F [0 ..< b * t])) = map F [q * t ..< q * t + t]" by simp
    then show ?thesis by (simp only: map_upt_shift)
  qed
  show ?thesis
    unfolding reshape3_def by (rule map_cong [OF refl]) (simp add: blk)
qed

section \<open>The loop over the assets\<close>

lemma asset_step:
  "map (\<lambda>p. p * w) (final_prices P0 (cumulative_return (log_returns mu sigma (1 / 252)
      (map (map (\<lambda>row. row ! i)) Z))))
   = map (\<lambda>zb. P0 * exp (sum_list (map (\<lambda>row. step_log_return mu sigma (row ! i)) zb)) * w) Z"
  by (simp add: final_prices_def cumulative_return_def log_returns_def step_log_return_def o_def)

lemma map2_add_upt:
  "length Z = n \<Longrightarrow> map2 (+) (map a [0 ..< n]) (map h Z) = map (\<lambda>b. a b + h (Z ! b)) [0 ..< n]"
  by (rule nth_equalityI) simp_all

lemma asset_loop_closed:
  assumes "\<forall>i \<in> set idxs. i < length ws \<and> i < length ps \<and> i < length mus \<and> i < length sigmas"
    and "length Z = n"
  shows "asset_loop ws ps mus sigmas Z (1 / 252) idxs (map a [0 ..< n])
    = Inr (map (\<lambda>b. a b + sum_list (map (\<lambda>i. contrib ws ps mus sigmas i (Z ! b)) idxs)) [0 ..< n])"
  using assms(1)
proof (induction idxs arbitrary: a)
  case Nil
  show ?case by simp
next
  case (Cons i idxs)
  have i: "i < length ws" "i < length ps" "i < length mus" "i < length sigmas"
    using Cons.prems by simp_all
  have rest: "\<forall>i \<in> set idxs. i < length ws \<and> i < length ps \<and> i < length mus \<and> i < length sigmas"
    using Cons.prems by simp
  have acc: "map2 (+) (map a [0 ..< n])
        (map (\<lambda>p. p * (ws ! i)) (final_prices (ps ! i) (cumulative_return
          (log_returns (mus ! i) (sigmas ! i) (1 / 252) (map (map (\<lambda>row. row ! i)) Z)))))
      = map (\<lambda>b. a b + contrib ws ps mus sigmas i (Z ! b)) [0 ..< n]"
    unfolding asset_step contrib_def using assms(2) by (rule map2_add_upt)
  have "asset_loop ws ps mus sigmas Z (1 / 252) (i # idxs) (map a [0 ..< n])
      = asset_loop ws ps mus sigmas Z (1 / 252) idxs
          (map (\<lambda>b. a b + contrib ws ps mus sigmas i (Z ! b)) [0 ..< n])"
    by (simp add: np_get_nat i bind_err_Inr Let_def acc)
  also have "\<dots> = Inr (map (\<lambda>b. (a b + contrib ws ps mus sigmas i (Z ! b))
        + sum_list (map (\<lambda>i. contrib ws ps mus sigmas i (Z ! b)) idxs)) [0 ..< n])"
    by (rule Cons.IH [OF rest])
  finally show ?case by (simp add: add.assoc)
qed

section \<open>One batch in closed form\<close>

lemma chol_rows_length:
  "chol_rows as Ls = Some L \<Longrightarrow> length L = length Ls + length as"
proof (induction as arbitrary: Ls)
  case Nil
  then show ?case by simp
next
  case (Cons a as)
  from Cons.prems have
    "chol_rows as (Ls @ [chol_offdiag a Ls [] @ [sqrt (a ! length Ls - dot (chol_offdiag a Ls []) (chol_offdiag a Ls []))]
        @ replicate (length as) 0]) = Some L"
    by (simp add: Let_def split: if_splits)
  from Cons.IH [OF this] show ?case by simp
qed

lemma cholesky_length:
  assumes "cholesky A = Inr L"
  shows "length L = length A \<and> 0 < length A"
proof -
  from assms have ne: "A \<noteq> []" and c: "chol_rows A [] = Some L"
    by (auto simp: cholesky_def split: if_splits option.splits)
  from chol_rows_length [OF c] ne show ?thesis by simp
qed

lemma contrib_block:
  assumes "i < length L" "length L = length ws"
  shows "contrib ws ps mus sigmas i
           (map (\<lambda>u. map (dot (map g [pos + (q * n + u) * length ws ..< pos + (q * n + u) * length ws + length ws])) L)
              [0 ..< n])
       = terminal_price g L (length ws) n (ps ! i) (mus ! i) (sigmas ! i) (pos + q * (n * length ws)) i * (ws ! i)"
proof -
  have e: "pos + (q * n + u) * length ws = pos + q * (n * length ws) + u * length ws" for u
    by (simp add: algebra_simps)
  show ?thesis
    unfolding contrib_def terminal_price_def shock_def e
    using assms(1) by (simp add: o_def)
qed

lemma simulate_portfolio_batch_steps:
  assumes chol: "cholesky corr = Inr L"
    and len: "length corr = length ws" "length ws \<le> length ps" "length ws \<le> length mus"
      "length ws \<le> length sigmas"
    and T: "0 \<le> py_int (T * 252)" and B: "0 \<le> B"
  shows "simulate_portfolio_batch g ws ps mus sigmas corr T B pos =
     (Inr (map (\<lambda>q. path_value g ws ps mus sigmas L (nat (py_int (T * 252)))
                  (pos + q * (nat (py_int (T * 252)) * length ws))) [0 ..< nat B]),
      pos + nat B * nat (py_int (T * 252)) * length ws)"
proof -
  define N where "N = length ws"
  define n where "n = nat (py_int (T * 252))"
  define b where "b = nat B"
  define rowf where "rowf j = map g [pos + j * N ..< pos + j * N + N]" for j
  define F where "F j = map (dot (rowf j)) L" for j
  define Z where "Z = map (\<lambda>q. map (\<lambda>u. F (q * n + u)) [0 ..< n]) [0 ..< b]"
  have LN: "length L = N" and Npos: "0 < N"
    using cholesky_length [OF chol] len(1) by (simp_all add: N_def)
  have sn: "standard_normal g B (py_int (T * 252)) (int N) pos
      = (Inr (map g [pos ..< pos + (b * n) * N]), pos + b * n * N)"
    unfolding b_def n_def by (rule standard_normal_ok [OF B T])
  have r2: "reshape2 (map g [pos ..< pos + (b * n) * N]) N = Inr (map rowf [0 ..< b * n])"
    unfolding rowf_def by (rule reshape2_stream [OF Npos])
  have mm: "matmul_T (map rowf [0 ..< b * n]) N L = Inr (map F [0 ..< b * n])"
    unfolding F_def by (rule matmul_T_ok) (simp add: LN)
  have r3: "reshape3 (map F [0 ..< b * n]) b n = Z"
    unfolding Z_def by (rule reshape3_blocks)
  have idx: "\<forall>i \<in> set [0 ..< N]. i < length ws \<and> i < length ps \<and> i < length mus \<and> i < length sigmas"
    using len by (simp add: N_def)
  have lz: "length Z = b" by (simp add: Z_def)
  have al: "asset_loop ws ps mus sigmas Z (1 / 252) [0 ..< N] (map (\<lambda>_. 0) [0 ..< b])
      = Inr (map (\<lambda>q. 0 + sum_list (map (\<lambda>i. contrib ws ps mus sigmas i (Z ! q)) [0 ..< N])) [0 ..< b])"
    by (rule asset_loop_closed [OF idx lz])
  have pv: "sum_list (map (\<lambda>i. contrib ws ps mus sigmas i (Z ! q)) [0 ..< N])
      = path_value g ws ps mus sigmas L n (pos + q * (n * N))" if q: "q < b" for q
  proof -
    have zq: "Z ! q = map (\<lambda>u. map (dot (map g [pos + (q * n + u) * length ws
                  ..< pos + (q * n + u) * length ws + length ws])) L) [0 ..< n]"
      using q by (simp add: Z_def F_def rowf_def N_def)
    have "map (\<lambda>i. contrib ws ps mus sigmas i (Z ! q)) [0 ..< N]
        = map (\<lambda>i. terminal_price g L (length ws) n (ps ! i) (mus ! i) (sigmas ! i)
                      (pos + q * (n * length ws)) i * (ws ! i)) [0 ..< N]"
      unfolding zq
      by (rule map_cong [OF refl]) (simp add: contrib_block LN N_def)
    from arg_cong [OF this, of sum_list] show ?thesis
      by (simp only: path_value_def N_def)
  qed
  have vals: "map (\<lambda>q. 0 + sum_list (map (\<lambda>i. contrib ws ps mus sigmas i (Z ! q)) [0 ..< N])) [0 ..< b]
      = map (\<lambda>q. path_value g ws ps mus sigmas L n (pos + q * (n * N))) [0 ..< b]"
    by (rule map_cong [OF refl]) (simp add: pv)
  have rep: "replicate b (0::real) = map (\<lambda>_. 0) [0 ..< b]"
    by (simp add: map_replicate_trivial)
  have "simulate_portfolio_batch g ws ps mus sigmas corr T B pos =
     (Inr (map (\<lambda>q. path_value g ws ps mus sigmas L n (pos + q * (n * N))) [0 ..< b]),
      pos + b * n * N)"
    unfolding simulate_portfolio_batch_def Let_def chol
    unfolding N_def [symmetric] sn
    by (simp only: sum.case prod.case r2 bind_err_Inr mm n_def [symmetric] b_def [symmetric]
        r3 rep al vals)
  then show ?thesis unfolding N_def n_def b_def .
qed

lemma simulate_portfolio_batch_closed:
  assumes chol: "cholesky corr = Inr L"
    and len: "length corr = length ws" "length ws \<le> length ps" "length ws \<le> length mus"
      "length ws \<le> length sigmas"
    and T: "0 \<le> T" and B: "0 \<le> B"
  shows "simulate_portfolio_batch g ws ps mus sigmas corr T B pos =
     (Inr (map (\<lambda>q. path_value g ws ps mus sigmas L (nat \<lfloor>T * 252\<rfloor>)
                  (pos + q * (nat \<lfloor>T * 252\<rfloor> * length ws))) [0 ..< nat B]),
      pos + nat B * nat \<lfloor>T * 252\<rfloor> * length ws)"
proof -
  have s: "py_int (T * 252) = \<lfloor>T * 252\<rfloor>" using T by (simp add: py_int_nonneg)
  have "0 \<le> py_int (T * 252)" unfolding s using T by simp
  from simulate_portfolio_batch_steps [OF chol len this B] show ?thesis unfolding s .
qed

lemma np_get_out_of_range: "\<not> i < length xs \<Longrightarrow> np_get xs (int i) = Inl IndexError"
  by (simp add: np_get_def)

lemma asset_loop_bounds:
  assumes "asset_loop ws ps mus sigmas Z dt idxs acc = Inr v"
  shows "\<forall>i \<in> set idxs. i < length ws \<and> i < length ps \<and> i < length mus \<and> i < length sigmas"
  using assms
proof (induction idxs arbitrary: acc)
  case Nil
  show ?case by simp
next
  case (Cons i idxs)
  have m: "i < length mus"
  proof (rule ccontr)
    assume "\<not> i < length mus"
    from np_get_out_of_range [OF this] Cons.prems show False by (simp add: bind_err_def)
  qed
  have s: "i < length sigmas"
  proof (rule ccontr)
    assume "\<not> i < length sigmas"
    from np_get_out_of_range [OF this] Cons.prems show False
      by (simp add: np_get_nat [OF m] bind_err_def)
  qed
  have p: "i < length ps"
  proof (rule ccontr)
    assume "\<not> i < length ps"
    from np_get_out_of_range [OF this] Cons.prems show False
      by (simp add: np_get_nat [OF m] np_get_nat [OF s] bind_err_def Let_def)
  qed
  have w: "i < length ws"
  proof (rule ccontr)
    assume "\<not> i < length ws"
    from np_get_out_of_range [OF this] Cons.prems show False
      by (simp add: np_get_nat [OF m] np_get_nat [OF s] np_get_nat [OF p] bind_err_def Let_def)
  qed
  from Cons.prems have "\<exists>acc'. asset_loop ws ps mus sigmas Z dt idxs acc' = Inr v"
    by (auto simp add: np_get_nat [OF m] np_get_nat [OF s] np_get_nat [OF p] np_get_nat [OF w]
        bind_err_Inr Let_def)
  then obtain acc' where "asset_loop ws ps mus sigmas Z dt idxs acc' = Inr v" ..
  from Cons.IH [OF this] m s p w show ?case by simp
qed

lemma simulate_portfolio_batch_runs:
  assumes run: "simulate_portfolio_batch g ws ps mus sigmas corr T B pos = (Inr vals, pos')"
  shows "\<exists>L. cholesky corr = Inr L \<and> length corr = length ws \<and> length ws \<le> length ps
    \<and> length ws \<le> length mus \<and> length ws \<le> length sigmas
    \<and> 0 \<le> py_int (T * 252) \<and> 0 \<le> B"
proof (cases "cholesky corr")
  case (Inl e)
  with run show ?thesis by (simp add: simulate_portfolio_batch_def Let_def)
next
  case (Inr L)
  define N where "N = length ws"
  define n where "n = nat (py_int (T * 252))"
  define b where "b = nat B"
  have unf: "simulate_portfolio_batch g ws ps mus sigmas corr T B pos =
      (case standard_normal g B (py_int (T * 252)) (int N) pos of
         (Inl e, pos') \<Rightarrow> (Inl e, pos')
       | (Inr Z_indep, pos') \<Rightarrow>
           (bind_err (reshape2 Z_indep N) (\<lambda>Z_flat.
            bind_err (matmul_T Z_flat N L) (\<lambda>Z_rows.
              asset_loop ws ps mus sigmas (reshape3 Z_rows b n) (1 / 252) [0 ..< N]
                (replicate b 0))), pos'))"
    unfolding simulate_portfolio_batch_def Let_def Inr N_def n_def b_def by simp
  have nn: "0 \<le> B \<and> 0 \<le> py_int (T * 252)"
  proof (rule ccontr)
    assume "\<not> (0 \<le> B \<and> 0 \<le> py_int (T * 252))"
    then have "standard_normal g B (py_int (T * 252)) (int N) pos = (Inl ValueError, pos)"
      by (auto simp: standard_normal_def)
    with run show False unfolding unf by simp
  qed
  then have B: "0 \<le> B" and T: "0 \<le> py_int (T * 252)" by simp_all
  have sn: "standard_normal g B (py_int (T * 252)) (int N) pos
      = (Inr (map g [pos ..< pos + (b * n) * N]), pos + b * n * N)"
    unfolding b_def n_def by (rule standard_normal_ok [OF B T])
  from run have pr: "(bind_err (reshape2 (map g [pos ..< pos + (b * n) * N]) N) (\<lambda>Z_flat.
            bind_err (matmul_T Z_flat N L) (\<lambda>Z_rows.
              asset_loop ws ps mus sigmas (reshape3 Z_rows b n) (1 / 252) [0 ..< N]
                (replicate b 0))), pos + b * n * N) = (Inr vals, pos')"
    unfolding unf sn by (simp only: prod.case sum.case)
  have run2: "bind_err (reshape2 (map g [pos ..< pos + (b * n) * N]) N) (\<lambda>Z_flat.
            bind_err (matmul_T Z_flat N L) (\<lambda>Z_rows.
              asset_loop ws ps mus sigmas (reshape3 Z_rows b n) (1 / 252) [0 ..< N]
                (replicate b 0))) = Inr vals"
    using arg_cong [OF pr, of fst] by (simp only: fst_conv)
  have Npos: "0 < N"
  proof (rule ccontr)
    assume "\<not> 0 < N"
    then have "reshape2 (map g [pos ..< pos + (b * n) * N]) N = Inl ValueError"
      by (simp add: reshape2_def)
    with run2 show False by (simp add: bind_err_Inl)
  qed
  define rows where "rows = map (\<lambda>j. map g [pos + j * N ..< pos + j * N + N]) [0 ..< b * n]"
  have r2: "reshape2 (map g [pos ..< pos + (b * n) * N]) N = Inr rows"
    unfolding rows_def by (rule reshape2_stream [OF Npos])
  from run2 have run3: "bind_err (matmul_T rows N L) (\<lambda>Z_rows.
              asset_loop ws ps mus sigmas (reshape3 Z_rows b n) (1 / 252) [0 ..< N]
                (replicate b 0)) = Inr vals"
    unfolding r2 bind_err_Inr .
  have NL: "N = length L"
  proof (rule ccontr)
    assume "N \<noteq> length L"
    then have "matmul_T rows N L = Inl ValueError" by (simp add: matmul_T_def)
    with run3 show False by (simp add: bind_err_Inl)
  qed
  then have "matmul_T rows N L = Inr (map (\<lambda>z. map (\<lambda>l. dot z l) L) rows)"
    by (simp add: matmul_T_def)
  with run3 have "asset_loop ws ps mus sigmas
      (reshape3 (map (\<lambda>z. map (\<lambda>l. dot z l) L) rows) b n) (1 / 252) [0 ..< N] (replicate b 0) = Inr vals"
    by (simp add: bind_err_Inr)
  from asset_loop_bounds [OF this]
  have bd: "\<And>i. i < N \<Longrightarrow> i < length ps \<and> i < length mus \<and> i < length sigmas" by simp
  have le: "N \<le> k" if "\<And>i. i < N \<Longrightarrow> i < k" for k
  proof (rule ccontr)
    assume "\<not> N \<le> k"
    then have "k < N" by simp
    from that [OF this] show False by simp
  qed
  have "N \<le> length ps" "N \<le> length mus" "N \<le> length sigmas"
    using bd by (auto intro: le)
  moreover have "length corr = N" using cholesky_length [OF Inr] NL by simp
  ultimately show ?thesis using Inr B T unfolding N_def by blast
qed

section \<open>The batch loop in closed form\<close>

lemma slice_assign_block:
  assumes "a \<le> b" "b \<le> length xs" "length vals = b - a"
  shows "slice_assign xs (int a) (int b) vals = Inr (take a xs @ vals @ drop b xs)"
proof -
  have "slice_bound (length xs) (int a) = a" "slice_bound (length xs) (int b) = b"
    using assms by (simp_all add: slice_bound_def)
  then show ?thesis using assms by (simp add: slice_assign_def Let_def)
qed

lemma batch_in_closed_form:
  assumes chol: "cholesky (correlation_matrix cfg) = Inr L"
    and len: "length (correlation_matrix cfg) = length (weights cfg)"
      "length (weights cfg) \<le> length (initial_prices cfg)"
      "length (weights cfg) \<le> length (expected_returns cfg)"
      "length (weights cfg) \<le> length (volatilities cfg)"
    and T: "0 \<le> T" and ab: "a \<le> b"
  shows "simulate_portfolio_batch g (weights cfg) (initial_prices cfg) (expected_returns cfg)
           (volatilities cfg) (correlation_matrix cfg) T (int b - int a) (pos0 + a * draws_per_path cfg T)
       = (Inr (map (path_of g cfg L T pos0) [a ..< b]), pos0 + b * draws_per_path cfg T)"
proof -
  have B: "0 \<le> int b - int a" using ab by simp
  have nB: "nat (int b - int a) = b - a" by simp
  have e: "pos0 + a * draws_per_path cfg T + q * (nat \<lfloor>T * 252\<rfloor> * length (weights cfg))
      = pos0 + (a + q) * draws_per_path cfg T" for q
    by (simp add: draws_per_path_def steps_of_def algebra_simps)
  have vals: "map (\<lambda>q. path_value g (weights cfg) (initial_prices cfg) (expected_returns cfg)
                (volatilities cfg) L (nat \<lfloor>T * 252\<rfloor>)
                (pos0 + a * draws_per_path cfg T + q * (nat \<lfloor>T * 252\<rfloor> * length (weights cfg))))
             [0 ..< b - a]
      = map (path_of g cfg L T pos0) [a ..< b]"
  proof -
    have "map (path_of g cfg L T pos0) [a ..< a + (b - a)]
        = map (\<lambda>q. path_of g cfg L T pos0 (a + q)) [0 ..< b - a]"
      by (rule map_upt_shift)
    moreover have "a + (b - a) = b" using ab by simp
    ultimately show ?thesis
      unfolding e by (simp add: path_of_def steps_of_def)
  qed
  have p: "pos0 + a * draws_per_path cfg T + (b - a) * nat \<lfloor>T * 252\<rfloor> * length (weights cfg)
      = pos0 + b * draws_per_path cfg T"
  proof -
    have "a * draws_per_path cfg T + (b - a) * draws_per_path cfg T = b * draws_per_path cfg T"
      using ab by (simp add: add_mult_distrib [symmetric])
    then show ?thesis by (simp add: draws_per_path_def steps_of_def mult.assoc)
  qed
  show ?thesis
    unfolding simulate_portfolio_batch_closed [OF chol len T B] nB vals p ..
qed

lemma run_batches_step:
  assumes chol: "cholesky (correlation_matrix cfg) = Inr L"
    and len: "length (correlation_matrix cfg) = length (weights cfg)"
      "length (weights cfg) \<le> length (initial_prices cfg)"
      "length (weights cfg) \<le> length (expected_returns cfg)"
      "length (weights cfg) \<le> length (volatilities cfg)"
    and T: "0 \<le> T"
    and eng: "n_simulations eng = int s" "batch_size eng = int k"
    and js: "j * k \<le> s"
  shows "run_batches g eng cfg T (j # rest)
           (map (path_of g cfg L T pos0) [0 ..< j * k] @ replicate (s - j * k) 0,
            pos0 + j * k * draws_per_path cfg T)
       = run_batches g eng cfg T rest
           (map (path_of g cfg L T pos0) [0 ..< min (j * k + k) s] @ replicate (s - min (j * k + k) s) 0,
            pos0 + min (j * k + k) s * draws_per_path cfg T)"
proof -
  define a where "a = j * k"
  define b where "b = min (j * k + k) s"
  have ab: "a \<le> b" and bs: "b \<le> s" using js by (simp_all add: a_def b_def)
  have st: "batch_start eng j = int a" by (simp add: batch_start_def eng a_def)
  have e1: "int j * int k + int k = int (j * k + k)" by simp
  have en: "batch_end eng j = int b"
    unfolding batch_end_def batch_start_def eng e1 b_def by (simp only: of_nat_min)
  have sim: "simulate_portfolio_batch g (weights cfg) (initial_prices cfg) (expected_returns cfg)
           (volatilities cfg) (correlation_matrix cfg) T (int b - int a) (pos0 + a * draws_per_path cfg T)
       = (Inr (map (path_of g cfg L T pos0) [a ..< b]), pos0 + b * draws_per_path cfg T)"
    by (rule batch_in_closed_form [OF chol len T ab])
  have sl: "slice_assign (map (path_of g cfg L T pos0) [0 ..< a] @ replicate (s - a) 0) (int a) (int b)
              (map (path_of g cfg L T pos0) [a ..< b])
          = Inr (map (path_of g cfg L T pos0) [0 ..< b] @ replicate (s - b) 0)"
  proof -
    have l: "length (map (path_of g cfg L T pos0) [0 ..< a] @ replicate (s - a) (0::real)) = s"
      using ab bs by simp
    have "slice_assign (map (path_of g cfg L T pos0) [0 ..< a] @ replicate (s - a) 0) (int a) (int b)
              (map (path_of g cfg L T pos0) [a ..< b])
        = Inr (take a (map (path_of g cfg L T pos0) [0 ..< a] @ replicate (s - a) 0)
               @ map (path_of g cfg L T pos0) [a ..< b]
               @ drop b (map (path_of g cfg L T pos0) [0 ..< a] @ replicate (s - a) 0))"
      by (rule slice_assign_block [OF ab]) (simp_all only: l bs length_map length_upt)
    moreover have "take a (map (path_of g cfg L T pos0) [0 ..< a] @ replicate (s - a) (0::real))
        = map (path_of g cfg L T pos0) [0 ..< a]" by simp
    moreover have "drop b (map (path_of g cfg L T pos0) [0 ..< a] @ replicate (s - a) (0::real))
        = replicate (s - b) 0" using ab by simp
    moreover have "map (path_of g cfg L T pos0) [0 ..< a] @ map (path_of g cfg L T pos0) [a ..< b]
        = map (path_of g cfg L T pos0) [0 ..< b]"
    proof -
      from ab obtain d where d: "b = a + d" by (auto simp: le_iff_add)
      have "[0 ..< a + d] = [0 ..< a] @ [a ..< a + d]" by (rule upt_add_eq_append) simp
      then show ?thesis unfolding d by simp
    qed
    ultimately show ?thesis by simp
  qed
  have "run_batches g eng cfg T (j # rest)
           (map (path_of g cfg L T pos0) [0 ..< a] @ replicate (s - a) 0,
            pos0 + a * draws_per_path cfg T)
       = run_batches g eng cfg T rest
           (map (path_of g cfg L T pos0) [0 ..< b] @ replicate (s - b) 0,
            pos0 + b * draws_per_path cfg T)"
    unfolding run_batches.simps Let_def st en sim
    by (simp only: prod.case sum.case sl)
  then show ?thesis unfolding a_def b_def .
qed

lemma run_batches_closed:
  assumes chol: "cholesky (correlation_matrix cfg) = Inr L"
    and len: "length (correlation_matrix cfg) = length (weights cfg)"
      "length (weights cfg) \<le> length (initial_prices cfg)"
      "length (weights cfg) \<le> length (expected_returns cfg)"
      "length (weights cfg) \<le> length (volatilities cfg)"
    and T: "0 \<le> T"
    and eng: "n_simulations eng = int s" "batch_size eng = int k"
    and nb: "nb = 0 \<or> (nb - 1) * k < s"
    and j: "j \<le> nb"
  shows "run_batches g eng cfg T [j ..< nb]
           (map (path_of g cfg L T pos0) [0 ..< min (j * k) s] @ replicate (s - min (j * k) s) 0,
            pos0 + min (j * k) s * draws_per_path cfg T)
       = (Inr (map (path_of g cfg L T pos0) [0 ..< min (nb * k) s] @ replicate (s - min (nb * k) s) 0),
          pos0 + min (nb * k) s * draws_per_path cfg T)"
  using j
proof (induction "nb - j" arbitrary: j)
  case 0
  then have "j = nb" by simp
  then show ?case by simp
next
  case (Suc d)
  then have jn: "j < nb" and d: "d = nb - Suc j" and sj: "Suc j \<le> nb" by simp_all
  have "j \<le> nb - 1" using jn by simp
  then have "j * k \<le> (nb - 1) * k" by (rule mult_le_mono1)
  moreover have "(nb - 1) * k < s" using nb jn by auto
  ultimately have js: "j * k < s" by (rule le_less_trans)
  then have m: "min (j * k) s = j * k" by simp
  have l: "[j ..< nb] = j # [Suc j ..< nb]" using jn by (rule upt_conv_Cons)
  have js': "j * k \<le> s" using js by simp
  show ?case
    unfolding l m run_batches_step [OF chol len T eng js']
    using Suc.hyps(1) [OF d sj] by (simp add: add.commute)
qed

lemma those_length: "those xs = Some ys \<Longrightarrow> length ys = length xs"
  by (induction xs arbitrary: ys) (auto split: option.splits)

lemma ceiling_batches:
  fixes s k :: nat
  assumes "0 < k"
  defines "nb \<equiv> nat \<lceil>real_of_int (int s) / real_of_int (int k)\<rceil>"
  shows "(nb = 0 \<or> (nb - 1) * k < s) \<and> s \<le> nb * k \<and> nb * k < s + k"
proof -
  define c where "c = \<lceil>real s / real k\<rceil>"
  have "0 \<le> real s / real k" by simp
  then have "- 1 < real s / real k" by linarith
  then have c0: "0 \<le> c" unfolding c_def by simp
  have nbc: "int nb = c" using c0 by (simp add: nb_def c_def)
  have kpos: "0 < real k" using assms(1) by simp
  have "real s / real k \<le> of_int c" unfolding c_def by (rule le_of_int_ceiling)
  then have "real s \<le> of_int c * real k" using kpos by (simp add: pos_divide_le_eq)
  then have "real s \<le> real (nb * k)" unfolding nbc [symmetric] by simp
  then have up: "s \<le> nb * k" by (simp only: of_nat_le_iff)
  have "of_int c - 1 < real s / real k" unfolding c_def by linarith
  then have "(of_int c - 1) * real k < real s" using kpos by (simp only: pos_less_divide_eq)
  then have "of_int c * real k < real s + real k" by (simp add: algebra_simps)
  then have "real (nb * k) < real (s + k)" unfolding nbc [symmetric] by simp
  then have lo: "nb * k < s + k" by (simp only: of_nat_less_iff)
  have "(nb - 1) * k < s" if "nb \<noteq> 0"
  proof -
    from that obtain m where m: "nb = Suc m" by (cases nb) auto
    from lo show ?thesis unfolding m by simp
  qed
  with up lo show ?thesis by blast
qed

section \<open>The terminal value of a path\<close>

lemma cholesky_unit: "cholesky [[1]] = Inr [[1]]"
  by (simp add: cholesky_def dot_def)

text \<open>Claim C1. \<^verbatim>\<open>simulate_portfolio_batch\<close> returns an array exactly when the batch can
  run: the correlation matrix has a Cholesky factor \<open>L\<close> and as many rows as there are
  weights, the parameter arrays cover every asset, and the step count \<open>int(T * 252)\<close> and
  the path count are not negative. The value it returns for a path is then the sum over
  the assets of \<open>P0 * exp (sum of the per-step log-returns) * weight\<close>, where the log-return
  of step \<open>t\<close> is \<open>(mu - sigma\<^sup>2 / 2) * dt + sigma * sqrt dt * Z\<close> with \<open>dt = 1 / 252\<close> and \<open>Z\<close> the
  correlated shock of that path, step and asset, and the sum runs over all
  \<open>int(T * 252)\<close> steps.\<close>

theorem batch_values_lognormal:
  "simulate_portfolio_batch g ws ps mus sigmas corr T B pos = (Inr vals, pos') \<longleftrightarrow>
     (\<exists>L. cholesky corr = Inr L \<and> length corr = length ws \<and> length ws \<le> length ps
        \<and> length ws \<le> length mus \<and> length ws \<le> length sigmas
        \<and> 0 \<le> py_int (T * 252) \<and> 0 \<le> B
        \<and> vals = map (\<lambda>q. sum_list (map (\<lambda>i.
              ps ! i * exp (sum_list (map (\<lambda>t.
                 (mus ! i - 0.5 * (sigmas ! i)\<^sup>2) * (1 / 252)
                   + sigmas ! i * sqrt (1 / 252)
                     * shock g L (length ws) (pos + q * (nat (py_int (T * 252)) * length ws)) t i)
                 [0 ..< nat (py_int (T * 252))])) * (ws ! i))
            [0 ..< length ws])) [0 ..< nat B]
        \<and> pos' = pos + nat B * nat (py_int (T * 252)) * length ws)"
proof
  assume run: "simulate_portfolio_batch g ws ps mus sigmas corr T B pos = (Inr vals, pos')"
  from simulate_portfolio_batch_runs [OF run] obtain L where
    c: "cholesky corr = Inr L" "length corr = length ws" "length ws \<le> length ps"
       "length ws \<le> length mus" "length ws \<le> length sigmas"
       "0 \<le> py_int (T * 252)" "0 \<le> B" by blast
  from run have "vals = map (\<lambda>q. path_value g ws ps mus sigmas L (nat (py_int (T * 252)))
                  (pos + q * (nat (py_int (T * 252)) * length ws))) [0 ..< nat B]"
    and "pos' = pos + nat B * nat (py_int (T * 252)) * length ws"
    unfolding simulate_portfolio_batch_steps [OF c] by simp_all
  then have "vals = map (\<lambda>q. sum_list (map (\<lambda>i.
              ps ! i * exp (sum_list (map (\<lambda>t.
                 (mus ! i - 0.5 * (sigmas ! i)\<^sup>2) * (1 / 252)
                   + sigmas ! i * sqrt (1 / 252)
                     * shock g L (length ws) (pos + q * (nat (py_int (T * 252)) * length ws)) t i)
                 [0 ..< nat (py_int (T * 252))])) * (ws ! i))
            [0 ..< length ws])) [0 ..< nat B]"
    and "pos' = pos + nat B * nat (py_int (T * 252)) * length ws"
    unfolding path_value_def terminal_price_def step_log_return_def by simp_all
  with c show "\<exists>L. cholesky corr = Inr L \<and> length corr = length ws \<and> length ws \<le> length ps
        \<and> length ws \<le> length mus \<and> length ws \<le> length sigmas
        \<and> 0 \<le> py_int (T * 252) \<and> 0 \<le> B
        \<and> vals = map (\<lambda>q. sum_list (map (\<lambda>i.
              ps ! i * exp (sum_list (map (\<lambda>t.
                 (mus ! i - 0.5 * (sigmas ! i)\<^sup>2) * (1 / 252)
                   + sigmas ! i * sqrt (1 / 252)
                     * shock g L (length ws) (pos + q * (nat (py_int (T * 252)) * length ws)) t i)
                 [0 ..< nat (py_int (T * 252))])) * (ws ! i))
            [0 ..< length ws])) [0 ..< nat B]
        \<and> pos' = pos + nat B * nat (py_int (T * 252)) * length ws" by blast
next
  assume "\<exists>L. cholesky corr = Inr L \<and> length corr = length ws \<and> length ws \<le> length ps
        \<and> length ws \<le> length mus \<and> length ws \<le> length sigmas
        \<and> 0 \<le> py_int (T * 252) \<and> 0 \<le> B
        \<and> vals = map (\<lambda>q. sum_list (map (\<lambda>i.
              ps ! i * exp (sum_list (map (\<lambda>t.
                 (mus ! i - 0.5 * (sigmas ! i)\<^sup>2) * (1 / 252)
                   + sigmas ! i * sqrt (1 / 252)
                     * shock g L (length ws) (pos + q * (nat (py_int (T * 252)) * length ws)) t i)
                 [0 ..< nat (py_int (T * 252))])) * (ws ! i))
            [0 ..< length ws])) [0 ..< nat B]
        \<and> pos' = pos + nat B * nat (py_int (T * 252)) * length ws"
  then obtain L where
    c: "cholesky corr = Inr L" "length corr = length ws" "length ws \<le> length ps"
       "length ws \<le> length mus" "length ws \<le> length sigmas"
       "0 \<le> py_int (T * 252)" "0 \<le> B"
    and v: "vals = map (\<lambda>q. sum_list (map (\<lambda>i.
              ps ! i * exp (sum_list (map (\<lambda>t.
                 (mus ! i - 0.5 * (sigmas ! i)\<^sup>2) * (1 / 252)
                   + sigmas ! i * sqrt (1 / 252)
                     * shock g L (length ws) (pos + q * (nat (py_int (T * 252)) * length ws)) t i)
                 [0 ..< nat (py_int (T * 252))])) * (ws ! i))
            [0 ..< length ws])) [0 ..< nat B]"
    and p: "pos' = pos + nat B * nat (py_int (T * 252)) * length ws" by blast
  show "simulate_portfolio_batch g ws ps mus sigmas corr T B pos = (Inr vals, pos')"
    unfolding simulate_portfolio_batch_steps [OF c] v p path_value_def terminal_price_def
      step_log_return_def ..
qed

theorem batch_values_lognormal_witness:
  "simulate_portfolio_batch (\<lambda>_. 0) [1] [2] [0] [1] [[1]] (1 / 252) 1 0
       = (Inr [2 * exp (- (1 / 504))], 1)"
proof -
  have "\<exists>L. cholesky [[1]] = Inr L \<and> length [[1 :: real]] = length [1 :: real]
        \<and> length [1 :: real] \<le> length [2 :: real]
        \<and> length [1 :: real] \<le> length [0 :: real] \<and> length [1 :: real] \<le> length [1 :: real]
        \<and> 0 \<le> py_int (1 / 252 * 252) \<and> (0 :: int) \<le> 1
        \<and> [2 * exp (- (1 / 504))] = map (\<lambda>q. sum_list (map (\<lambda>i.
              [2] ! i * exp (sum_list (map (\<lambda>t.
                 ([0] ! i - 0.5 * ([1] ! i)\<^sup>2) * (1 / 252)
                   + [1] ! i * sqrt (1 / 252)
                     * shock (\<lambda>_. 0) L (length [1 :: real]) (0 + q * (nat (py_int (1 / 252 * 252)) * length [1 :: real])) t i)
                 [0 ..< nat (py_int (1 / 252 * 252))])) * ([1] ! i))
            [0 ..< length [1 :: real]])) [0 ..< nat 1]
        \<and> (1 :: nat) = 0 + nat 1 * nat (py_int (1 / 252 * 252)) * length [1 :: real]"
    by (rule exI [of _ "[[1]]"]) (simp add: cholesky_unit py_int_def shock_def dot_def)
  then show ?thesis by (rule iffD2 [OF batch_values_lognormal])
qed

section \<open>The whole run in closed form\<close>

lemma engine_init_fields:
  assumes "engine_init (int s) (int k) = Inr eng"
  shows "n_simulations eng = int s" "batch_size eng = int k"
    "n_batches eng = \<lceil>real_of_int (int s) / real_of_int (int k)\<rceil>" "k \<noteq> 0"
  using assms by (auto simp: engine_init_def split: if_splits)

lemma run_batches_all:
  assumes chol: "cholesky (correlation_matrix cfg) = Inr L"
    and len: "length (correlation_matrix cfg) = length (weights cfg)"
      "length (weights cfg) \<le> length (initial_prices cfg)"
      "length (weights cfg) \<le> length (expected_returns cfg)"
      "length (weights cfg) \<le> length (volatilities cfg)"
    and T: "0 \<le> T"
    and eng: "engine_init (int s) (int k) = Inr eng"
  shows "run_batches g eng cfg T [0 ..< nat (n_batches eng)] (replicate (nat (n_simulations eng)) 0, pos0)
       = (Inr (map (path_of g cfg L T pos0) [0 ..< s]), pos0 + s * draws_per_path cfg T)"
proof -
  note f = engine_init_fields [OF eng]
  define nb where "nb = nat \<lceil>real_of_int (int s) / real_of_int (int k)\<rceil>"
  have k: "0 < k" using f(4) by simp
  from ceiling_batches [OF k, of s]
  have nb: "nb = 0 \<or> (nb - 1) * k < s" and up: "s \<le> nb * k" unfolding nb_def by blast+
  have m: "min (nb * k) s = s" using up by simp
  have "run_batches g eng cfg T [0 ..< nb]
           (map (path_of g cfg L T pos0) [0 ..< min (0 * k) s] @ replicate (s - min (0 * k) s) 0,
            pos0 + min (0 * k) s * draws_per_path cfg T)
       = (Inr (map (path_of g cfg L T pos0) [0 ..< min (nb * k) s] @ replicate (s - min (nb * k) s) 0),
          pos0 + min (nb * k) s * draws_per_path cfg T)"
    by (rule run_batches_closed [OF chol len T f(1,2) nb]) simp
  then show ?thesis unfolding m f(1,3) nb_def [symmetric] by simp
qed

lemma those_map_Some: "those (map Some xs) = Some xs"
  by (induction xs) simp_all

lemma those_map_None: "xs \<noteq> [] \<Longrightarrow> those (map (\<lambda>_. None) xs) = None"
  by (cases xs) simp_all

lemma run_5M_simulation_result:
  assumes nm: "length (initial_prices cfg) = length (weights cfg)"
    and ns: "0 \<le> n_simulations eng"
    and rb: "run_batches g eng cfg T [0 ..< nat (n_batches eng)]
               (replicate (nat (n_simulations eng)) 0, pos0) = (Inr fin, pos')"
    and ne: "fin \<noteq> []"
  shows "\<exists>res. run_5M_simulation g eng cfg T pos0 = (Inr res, pos')
      \<and> final_values res = fin
      \<and> returns res = map (\<lambda>v. np_div (v - initial_value cfg) (initial_value cfg)) fin
      \<and> config res = cfg
      \<and> (initial_value cfg = 0 \<longrightarrow> metrics res = None)
      \<and> (initial_value cfg \<noteq> 0 \<longrightarrow>
           calculate_metrics (map (\<lambda>v. (v - initial_value cfg) / initial_value cfg) fin)
             = Inr (the (metrics res)) \<and> metrics res \<noteq> None)"
proof -
  define V0 where "V0 = initial_value cfg"
  define rets where "rets = map (\<lambda>v. np_div (v - V0) V0) fin"
  have mul: "np_mul (weights cfg) (initial_prices cfg) = Inr (map2 (*) (weights cfg) (initial_prices cfg))"
    using nm by (simp add: np_mul_def)
  have neg: "\<not> n_simulations eng < 0" using ns by simp
  have run: "run_5M_simulation g eng cfg T pos0 =
      (case those rets of
         None \<Rightarrow> (Inr \<lparr> final_values = fin, returns = rets, metrics = None, config = cfg \<rparr>, pos')
       | Some rs \<Rightarrow>
           (case calculate_metrics rs of
              Inl e \<Rightarrow> (Inl e, pos')
            | Inr m \<Rightarrow> (Inr \<lparr> final_values = fin, returns = rets, metrics = Some m, config = cfg \<rparr>, pos')))"
    unfolding run_5M_simulation_def mul rb rets_def V0_def initial_value_def Let_def
    by (simp only: sum.case prod.case neg if_False)
  show ?thesis
  proof (cases "V0 = 0")
    case True
    have "rets = map (\<lambda>_. None) fin" unfolding rets_def True by (simp add: np_div_def)
    then have "those rets = None" using ne by (simp add: those_map_None)
    then have "run_5M_simulation g eng cfg T pos0
        = (Inr \<lparr> final_values = fin, returns = rets, metrics = None, config = cfg \<rparr>, pos')"
      unfolding run by simp
    then show ?thesis using True unfolding rets_def V0_def by simp
  next
    case False
    define rs where "rs = map (\<lambda>v. (v - V0) / V0) fin"
    have "rets = map Some rs" unfolding rets_def rs_def using False by (simp add: np_div_def)
    then have th: "those rets = Some rs" by (simp add: those_map_Some)
    have "rs \<noteq> []" using ne by (simp add: rs_def)
    from calculate_metrics_tail_fields [OF this] obtain m where m: "calculate_metrics rs = Inr m"
      by blast
    have "run_5M_simulation g eng cfg T pos0
        = (Inr \<lparr> final_values = fin, returns = rets, metrics = Some m, config = cfg \<rparr>, pos')"
      unfolding run th by (simp add: m)
    then show ?thesis using False m unfolding rets_def V0_def rs_def by simp
  qed
qed

lemma run_5M_simulation_closed:
  assumes chol: "cholesky (correlation_matrix cfg) = Inr L"
    and len: "length (correlation_matrix cfg) = length (weights cfg)"
      "length (initial_prices cfg) = length (weights cfg)"
      "length (weights cfg) \<le> length (expected_returns cfg)"
      "length (weights cfg) \<le> length (volatilities cfg)"
    and T: "0 \<le> T"
    and eng: "engine_init (int s) (int k) = Inr eng"
    and s: "0 < s"
  shows "\<exists>res. run_5M_simulation g eng cfg T pos0 = (Inr res, pos0 + s * draws_per_path cfg T)
      \<and> final_values res = map (path_of g cfg L T pos0) [0 ..< s]
      \<and> returns res = map (\<lambda>v. np_div (v - initial_value cfg) (initial_value cfg))
                          (map (path_of g cfg L T pos0) [0 ..< s])
      \<and> config res = cfg
      \<and> (initial_value cfg = 0 \<longrightarrow> metrics res = None)
      \<and> (initial_value cfg \<noteq> 0 \<longrightarrow>
           calculate_metrics (map (\<lambda>v. (v - initial_value cfg) / initial_value cfg)
               (map (path_of g cfg L T pos0) [0 ..< s]))
             = Inr (the (metrics res)) \<and> metrics res \<noteq> None)"
proof -
  have le: "length (weights cfg) \<le> length (initial_prices cfg)" using len(2) by simp
  have ns: "0 \<le> n_simulations eng" using engine_init_fields(1) [OF eng] by simp
  have ne: "map (path_of g cfg L T pos0) [0 ..< s] \<noteq> []" using s by simp
  show ?thesis
    by (rule run_5M_simulation_result [OF len(2) ns
          run_batches_all [OF chol len(1) le len(3,4) T eng] ne])
qed

lemma run_5M_simulation_same:
  assumes "n_simulations e1 = n" "n_simulations e2 = n"
    and "run_batches g e1 cfg T [0 ..< nat (n_batches e1)] (replicate (nat n) 0, pos0) = out"
    and "run_batches g e2 cfg T [0 ..< nat (n_batches e2)] (replicate (nat n) 0, pos0) = out"
  shows "run_5M_simulation g e1 cfg T pos0 = run_5M_simulation g e2 cfg T pos0"
  unfolding run_5M_simulation_def assms(1) assms(2)
  unfolding assms(3) assms(4) ..

section \<open>The batch scheduler\<close>






text \<open>Claim C4. Two engines with the same total count \<open>S\<close> and any two batch sizes, run on
  the same configuration from the same position of the seeded stream, return the same
  outcome; for \<open>S \<ge> 1\<close> that outcome is a result whose array of final values is, element
  for element, the list of the values of the paths \<open>0, ..., S - 1\<close>, path \<open>q\<close> reading the
  draws that start at \<open>q\<close> times the number of draws of one path.\<close>

theorem result_independent_of_batch_size:
  assumes chol: "cholesky (correlation_matrix cfg) = Inr L"
    and len: "length (correlation_matrix cfg) = length (weights cfg)"
      "length (initial_prices cfg) = length (weights cfg)"
      "length (weights cfg) \<le> length (expected_returns cfg)"
      "length (weights cfg) \<le> length (volatilities cfg)"
    and T: "0 \<le> T"
    and e1: "engine_init (int s) (int k1) = Inr e1"
    and e2: "engine_init (int s) (int k2) = Inr e2"
  shows "run_5M_simulation g e1 cfg T pos0 = run_5M_simulation g e2 cfg T pos0
    \<and> (0 < s \<longrightarrow>
         (\<exists>r1 r2 pos'. run_5M_simulation g e1 cfg T pos0 = (Inr r1, pos')
            \<and> run_5M_simulation g e2 cfg T pos0 = (Inr r2, pos')
            \<and> final_values r1 = final_values r2
            \<and> final_values r1 = map (path_of g cfg L T pos0) [0 ..< s]
            \<and> returns r1 = returns r2 \<and> metrics r1 = metrics r2))"
proof -
  have le: "length (weights cfg) \<le> length (initial_prices cfg)" using len(2) by simp
  note f1 = engine_init_fields [OF e1] and f2 = engine_init_fields [OF e2]
  note b1 = run_batches_all [OF chol len(1) le len(3,4) T e1, of g pos0, unfolded f1(1)]
  note b2 = run_batches_all [OF chol len(1) le len(3,4) T e2, of g pos0, unfolded f2(1)]
  have same: "run_5M_simulation g e1 cfg T pos0 = run_5M_simulation g e2 cfg T pos0"
    using f1(1) f2(1) b1 b2 by (rule run_5M_simulation_same)
  have "\<exists>r1 r2 pos'. run_5M_simulation g e1 cfg T pos0 = (Inr r1, pos')
            \<and> run_5M_simulation g e2 cfg T pos0 = (Inr r2, pos')
            \<and> final_values r1 = final_values r2
            \<and> final_values r1 = map (path_of g cfg L T pos0) [0 ..< s]
            \<and> returns r1 = returns r2 \<and> metrics r1 = metrics r2" if s: "0 < s"
  proof -
    from run_5M_simulation_closed [OF chol len T e1 s, of g pos0] obtain res where
      run: "run_5M_simulation g e1 cfg T pos0 = (Inr res, pos0 + s * draws_per_path cfg T)"
      and fv: "final_values res = map (path_of g cfg L T pos0) [0 ..< s]" by blast
    from run have "run_5M_simulation g e2 cfg T pos0 = (Inr res, pos0 + s * draws_per_path cfg T)"
      unfolding same .
    with run fv show ?thesis by blast
  qed
  with same show ?thesis by blast
qed

theorem result_independent_of_batch_size_witness:
  "let cfg = \<lparr> tickers = [''A''], weights = [1], initial_prices = [2], expected_returns = [0],
                 volatilities = [1], correlation_matrix = [[1]] \<rparr>;
       e1 = \<lparr> n_simulations = 2, batch_size = 1, n_batches = 2 \<rparr>;
       e2 = \<lparr> n_simulations = 2, batch_size = 2, n_batches = 1 \<rparr>
   in cholesky (correlation_matrix cfg) = Inr [[1]]
      \<and> length (correlation_matrix cfg) = length (weights cfg)
      \<and> length (initial_prices cfg) = length (weights cfg)
      \<and> length (weights cfg) \<le> length (expected_returns cfg)
      \<and> length (weights cfg) \<le> length (volatilities cfg)
      \<and> (0 :: real) \<le> 1 / 252
      \<and> engine_init (int 2) (int 1) = Inr e1
      \<and> engine_init (int 2) (int 2) = Inr e2
      \<and> (0 :: nat) < 2
      \<and> run_5M_simulation (\<lambda>n. real n) e1 cfg (1 / 252) 0
          = run_5M_simulation (\<lambda>n. real n) e2 cfg (1 / 252) 0
      \<and> (\<exists>r1 r2 pos'. run_5M_simulation (\<lambda>n. real n) e1 cfg (1 / 252) 0 = (Inr r1, pos')
            \<and> run_5M_simulation (\<lambda>n. real n) e2 cfg (1 / 252) 0 = (Inr r2, pos')
            \<and> final_values r1 = final_values r2)"
proof -
  define cfg where "cfg = \<lparr> tickers = [''A''], weights = [1], initial_prices = [2],
    expected_returns = [0], volatilities = [1], correlation_matrix = [[1]] \<rparr>"
  define e1 where "e1 = \<lparr> n_simulations = 2, batch_size = 1, n_batches = 2 \<rparr>"
  define e2 where "e2 = \<lparr> n_simulations = 2, batch_size = 2, n_batches = 1 \<rparr>"
  have h: "cholesky (correlation_matrix cfg) = Inr [[1]]"
    "length (correlation_matrix cfg) = length (weights cfg)"
    "length (initial_prices cfg) = length (weights cfg)"
    "length (weights cfg) \<le> length (expected_returns cfg)"
    "length (weights cfg) \<le> length (volatilities cfg)"
    "(0 :: real) \<le> 1 / 252"
    "engine_init (int 2) (int 1) = Inr e1"
    "engine_init (int 2) (int 2) = Inr e2"
    by (simp_all add: cfg_def e1_def e2_def engine_init_def cholesky_unit)
  have s: "(0 :: nat) < 2" by simp
  note t = result_independent_of_batch_size [OF h, of "\<lambda>n. real n" 0]
  from t have same: "run_5M_simulation (\<lambda>n. real n) e1 cfg (1 / 252) 0
          = run_5M_simulation (\<lambda>n. real n) e2 cfg (1 / 252) 0" by (rule conjunct1)
  from t s have r: "\<exists>r1 r2 pos'. run_5M_simulation (\<lambda>n. real n) e1 cfg (1 / 252) 0 = (Inr r1, pos')
            \<and> run_5M_simulation (\<lambda>n. real n) e2 cfg (1 / 252) 0 = (Inr r2, pos')
            \<and> final_values r1 = final_values r2" by blast
  have "cholesky (correlation_matrix cfg) = Inr [[1]]
      \<and> length (correlation_matrix cfg) = length (weights cfg)
      \<and> length (initial_prices cfg) = length (weights cfg)
      \<and> length (weights cfg) \<le> length (expected_returns cfg)
      \<and> length (weights cfg) \<le> length (volatilities cfg)
      \<and> (0 :: real) \<le> 1 / 252
      \<and> engine_init (int 2) (int 1) = Inr e1
      \<and> engine_init (int 2) (int 2) = Inr e2
      \<and> (0 :: nat) < 2
      \<and> run_5M_simulation (\<lambda>n. real n) e1 cfg (1 / 252) 0
          = run_5M_simulation (\<lambda>n. real n) e2 cfg (1 / 252) 0
      \<and> (\<exists>r1 r2 pos'. run_5M_simulation (\<lambda>n. real n) e1 cfg (1 / 252) 0 = (Inr r1, pos')
            \<and> run_5M_simulation (\<lambda>n. real n) e2 cfg (1 / 252) 0 = (Inr r2, pos')
            \<and> final_values r1 = final_values r2)"
    using h s same r by blast
  then show ?thesis unfolding Let_def cfg_def e1_def e2_def .
qed

section \<open>Paths without volatility\<close>

lemma terminal_price_no_vol:
  "terminal_price g L n n_steps P0 mu 0 off i = P0 * exp (mu * (real n_steps / 252))"
  by (simp add: terminal_price_def step_log_return_def sum_list_triv)

lemma path_value_no_vol:
  assumes "\<forall>i < length ws. sigmas ! i = 0"
  shows "path_value g ws ps mus sigmas L n off
       = sum_list (map (\<lambda>i. ps ! i * exp (mus ! i * (real n / 252)) * (ws ! i)) [0 ..< length ws])"
proof -
  have "map (\<lambda>i. terminal_price g L (length ws) n (ps ! i) (mus ! i) (sigmas ! i) off i * (ws ! i))
          [0 ..< length ws]
      = map (\<lambda>i. ps ! i * exp (mus ! i * (real n / 252)) * (ws ! i)) [0 ..< length ws]"
    by (rule map_cong [OF refl]) (use assms in \<open>simp add: terminal_price_no_vol\<close>)
  then show ?thesis unfolding path_value_def by (rule arg_cong)
qed

lemma path_of_no_vol:
  assumes "\<forall>i < length (weights cfg). volatilities cfg ! i = 0"
  shows "path_of g cfg L T pos q
       = sum_list (map (\<lambda>i. initial_prices cfg ! i
                          * exp (expected_returns cfg ! i * (real (steps_of T) / 252))
                          * (weights cfg ! i)) [0 ..< length (weights cfg)])"
  unfolding path_of_def by (rule path_value_no_vol [OF assms])

lemma map2_nth:
  "length xs = length ys \<Longrightarrow> map2 f xs ys = map (\<lambda>i. f (xs ! i) (ys ! i)) [0 ..< length xs]"
  by (rule nth_equalityI) simp_all

lemma initial_value_sum:
  assumes "length (initial_prices cfg) = length (weights cfg)"
  shows "initial_value cfg
       = sum_list (map (\<lambda>i. weights cfg ! i * (initial_prices cfg ! i)) [0 ..< length (weights cfg)])"
  unfolding initial_value_def using assms by (simp add: map2_nth)

lemma path_of_no_drift_no_vol:
  assumes "\<forall>i < length (weights cfg). expected_returns cfg ! i = 0 \<and> volatilities cfg ! i = 0"
    and "length (initial_prices cfg) = length (weights cfg)"
  shows "path_of g cfg L T pos q = initial_value cfg"
proof -
  have v: "\<forall>i < length (weights cfg). volatilities cfg ! i = 0" using assms(1) by simp
  have "map (\<lambda>i. initial_prices cfg ! i
                          * exp (expected_returns cfg ! i * (real (steps_of T) / 252))
                          * (weights cfg ! i)) [0 ..< length (weights cfg)]
      = map (\<lambda>i. weights cfg ! i * (initial_prices cfg ! i)) [0 ..< length (weights cfg)]"
    by (rule map_cong [OF refl]) (use assms(1) in simp)
  then show ?thesis
    unfolding path_of_no_vol [OF v] initial_value_sum [OF assms(2)] by (rule arg_cong)
qed


lemma np_std_replicate:
  assumes "0 < n"
  shows "np_std (replicate n r) = Some 0"
proof -
  have ne: "replicate n r \<noteq> []" "replicate n (0::real) \<noteq> []" using assms by simp_all
  have m: "np_mean (replicate n r) = Some r"
    using assms by (simp add: np_mean_def sum_list_replicate)
  have z: "np_mean (replicate n (0::real)) = Some 0"
    using assms by (simp add: np_mean_def sum_list_replicate)
  show ?thesis unfolding np_std_def m by (simp add: z)
qed

lemma calculate_metrics_moments:
  assumes "rs \<noteq> []"
  shows "\<exists>m. calculate_metrics rs = Inr m \<and> std_return m = np_std rs \<and> mean_return m = np_mean rs"
  unfolding calculate_metrics_nonempty [OF assms] by simp

lemma run_constant_paths:
  assumes chol: "cholesky (correlation_matrix cfg) = Inr L"
    and len: "length (correlation_matrix cfg) = length (weights cfg)"
      "length (initial_prices cfg) = length (weights cfg)"
      "length (weights cfg) \<le> length (expected_returns cfg)"
      "length (weights cfg) \<le> length (volatilities cfg)"
    and T: "0 \<le> T"
    and eng: "engine_init (int s) (int k) = Inr eng"
    and s: "0 < s"
    and D: "\<And>q. path_of g cfg L T pos0 q = D"
  shows "\<exists>res. run_5M_simulation g eng cfg T pos0 = (Inr res, pos0 + s * draws_per_path cfg T)
      \<and> final_values res = replicate s D
      \<and> returns res = replicate s (np_div (D - initial_value cfg) (initial_value cfg))
      \<and> (initial_value cfg \<noteq> 0 \<longrightarrow> (\<exists>m. metrics res = Some m \<and> std_return m = Some 0))"
proof -
  have paths: "map (path_of g cfg L T pos0) [0 ..< s] = replicate s D"
    unfolding D by (simp add: map_replicate_trivial)
  from run_5M_simulation_closed [OF chol len T eng s, of g pos0] obtain res where
    run: "run_5M_simulation g eng cfg T pos0 = (Inr res, pos0 + s * draws_per_path cfg T)"
    and fv: "final_values res = replicate s D"
    and rt: "returns res = map (\<lambda>v. np_div (v - initial_value cfg) (initial_value cfg)) (replicate s D)"
    and mt: "initial_value cfg \<noteq> 0 \<longrightarrow>
           calculate_metrics (map (\<lambda>v. (v - initial_value cfg) / initial_value cfg) (replicate s D))
             = Inr (the (metrics res)) \<and> metrics res \<noteq> None"
    unfolding paths by blast
  have std: "\<exists>m. metrics res = Some m \<and> std_return m = Some 0" if v: "initial_value cfg \<noteq> 0"
  proof -
    define r where "r = (D - initial_value cfg) / initial_value cfg"
    from mt v have c: "calculate_metrics (replicate s r) = Inr (the (metrics res))"
      and n: "metrics res \<noteq> None" by (simp_all add: r_def)
    have "replicate s r \<noteq> []" using s by simp
    from calculate_metrics_moments [OF this] obtain m where
      "calculate_metrics (replicate s r) = Inr m" "std_return m = np_std (replicate s r)" by blast
    then have "std_return (the (metrics res)) = Some 0"
      using c by (simp add: np_std_replicate [OF s])
    then show ?thesis using n by auto
  qed
  from run fv rt std show ?thesis by auto
qed

section \<open>Degenerate configurations\<close>







text \<open>Claim C7 (as stated, it fails). One asset with weight 0.8: the weights do not sum
  to 1 within \<open>1e-9\<close>, yet the run raises nothing: it draws its 252 random numbers,
  simulates the path and returns a result.\<close>

theorem run_accepts_weights_not_summing_to_one:
  "let cfg = \<lparr> tickers = [''A''], weights = [4 / 5], initial_prices = [2], expected_returns = [0],
                 volatilities = [0], correlation_matrix = [[1]] \<rparr>;
       eng = \<lparr> n_simulations = 1, batch_size = 1, n_batches = 1 \<rparr>
   in 1 / 10 ^ 9 < \<bar>sum_list (weights cfg) - 1\<bar>
      \<and> engine_init 1 1 = Inr eng
      \<and> (\<exists>res. run_5M_simulation (\<lambda>_. 0) eng cfg 1 0 = (Inr res, 252)
            \<and> final_values res = [8 / 5] \<and> returns res = [Some 0])"
proof -
  define cfg where "cfg = \<lparr> tickers = [''A''], weights = [4 / 5], initial_prices = [2],
    expected_returns = [0], volatilities = [0], correlation_matrix = [[1]] \<rparr>"
  define eng where "eng = \<lparr> n_simulations = 1, batch_size = 1, n_batches = 1 \<rparr>"
  have h: "cholesky (correlation_matrix cfg) = Inr [[1]]"
    "length (correlation_matrix cfg) = length (weights cfg)"
    "length (initial_prices cfg) = length (weights cfg)"
    "length (weights cfg) \<le> length (expected_returns cfg)"
    "length (weights cfg) \<le> length (volatilities cfg)"
    "(0 :: real) \<le> 1"
    "engine_init (int 1) (int 1) = Inr eng"
    "(0 :: nat) < 1"
    by (simp_all add: cfg_def eng_def engine_init_def cholesky_unit)
  have z: "\<forall>i < length (weights cfg). expected_returns cfg ! i = 0 \<and> volatilities cfg ! i = 0"
    by (simp add: cfg_def)
  have v: "initial_value cfg = 8 / 5" by (simp add: initial_value_def cfg_def)
  have d: "draws_per_path cfg 1 = 252" by (simp add: draws_per_path_def steps_of_def cfg_def)
  have e: "engine_init 1 1 = Inr eng" using h(7) by simp
  have w: "1 / 10 ^ 9 < \<bar>sum_list (weights cfg) - 1\<bar>" by (simp add: cfg_def)
  from run_constant_paths [OF h, of "\<lambda>_. 0" 0 "initial_value cfg"]
    path_of_no_drift_no_vol [OF z h(3)]
  obtain res where "run_5M_simulation (\<lambda>_. 0) eng cfg 1 0 = (Inr res, 0 + 1 * draws_per_path cfg 1)"
    "final_values res = replicate 1 (initial_value cfg)"
    "returns res = replicate 1 (np_div (initial_value cfg - initial_value cfg) (initial_value cfg))"
    by blast
  then have "\<exists>res. run_5M_simulation (\<lambda>_. 0) eng cfg 1 0 = (Inr res, 252)
            \<and> final_values res = [8 / 5] \<and> returns res = [Some 0]"
    unfolding v d by (auto simp: np_div_def)
  with w e have "1 / 10 ^ 9 < \<bar>sum_list (weights cfg) - 1\<bar>
      \<and> engine_init 1 1 = Inr eng
      \<and> (\<exists>res. run_5M_simulation (\<lambda>_. 0) eng cfg 1 0 = (Inr res, 252)
            \<and> final_values res = [8 / 5] \<and> returns res = [Some 0])" by blast
  then show ?thesis unfolding Let_def cfg_def eng_def .
qed

text \<open>Claim C7, amended. The weights are not validated: for a configuration whose weights
  do not sum to 1 within \<open>1e-9\<close> and on which a batch can run, the run with \<open>S \<ge> 1\<close> paths
  raises no error; it consumes the draws of all \<open>S\<close> paths and returns the result array of
  the \<open>S\<close> path values, computed with the weights as given.\<close>

theorem weights_are_not_validated:
  assumes "cholesky (correlation_matrix cfg) = Inr L"
    and "length (correlation_matrix cfg) = length (weights cfg)"
      "length (initial_prices cfg) = length (weights cfg)"
      "length (weights cfg) \<le> length (expected_returns cfg)"
      "length (weights cfg) \<le> length (volatilities cfg)"
    and "0 \<le> T"
    and "engine_init (int s) (int k) = Inr eng"
    and "0 < s"
    and "1 / 10 ^ 9 < \<bar>sum_list (weights cfg) - 1\<bar>"
  shows "\<exists>res. run_5M_simulation g eng cfg T pos0 = (Inr res, pos0 + s * draws_per_path cfg T)
      \<and> final_values res = map (path_of g cfg L T pos0) [0 ..< s]
      \<and> length (final_values res) = s
      \<and> config res = cfg"
proof -
  from run_5M_simulation_closed [OF assms(1-8), of g pos0] obtain res where
    "run_5M_simulation g eng cfg T pos0 = (Inr res, pos0 + s * draws_per_path cfg T)"
    "final_values res = map (path_of g cfg L T pos0) [0 ..< s]" "config res = cfg" by blast
  then show ?thesis by auto
qed

theorem weights_are_not_validated_witness:
  "let cfg = \<lparr> tickers = [''A''], weights = [4 / 5], initial_prices = [2], expected_returns = [0],
                 volatilities = [1], correlation_matrix = [[1]] \<rparr>;
       eng = \<lparr> n_simulations = 1, batch_size = 1, n_batches = 1 \<rparr>
   in cholesky (correlation_matrix cfg) = Inr [[1]]
      \<and> engine_init 1 1 = Inr eng
      \<and> 1 / 10 ^ 9 < \<bar>sum_list (weights cfg) - 1\<bar>
      \<and> (\<exists>res. run_5M_simulation (\<lambda>n. real n) eng cfg 1 0 = (Inr res, 252)
            \<and> length (final_values res) = 1 \<and> config res = cfg)"
proof -
  define cfg where "cfg = \<lparr> tickers = [''A''], weights = [4 / 5], initial_prices = [2],
    expected_returns = [0], volatilities = [1], correlation_matrix = [[1]] \<rparr>"
  define eng where "eng = \<lparr> n_simulations = 1, batch_size = 1, n_batches = 1 \<rparr>"
  have h: "cholesky (correlation_matrix cfg) = Inr [[1]]"
    "length (correlation_matrix cfg) = length (weights cfg)"
    "length (initial_prices cfg) = length (weights cfg)"
    "length (weights cfg) \<le> length (expected_returns cfg)"
    "length (weights cfg) \<le> length (volatilities cfg)"
    "(0 :: real) \<le> 1"
    "engine_init (int 1) (int 1) = Inr eng"
    "(0 :: nat) < 1"
    "1 / 10 ^ 9 < \<bar>sum_list (weights cfg) - 1\<bar>"
    by (simp_all add: cfg_def eng_def engine_init_def cholesky_unit)
  have d: "draws_per_path cfg 1 = 252" by (simp add: draws_per_path_def steps_of_def cfg_def)
  have e: "engine_init 1 1 = Inr eng" using h(7) by simp
  from weights_are_not_validated [OF h, of "\<lambda>n. real n" 0]
  have "\<exists>res. run_5M_simulation (\<lambda>n. real n) eng cfg 1 0 = (Inr res, 252)
            \<and> length (final_values res) = 1 \<and> config res = cfg"
    unfolding d by auto
  with h(1) e h(9) have "cholesky (correlation_matrix cfg) = Inr [[1]]
      \<and> engine_init 1 1 = Inr eng
      \<and> 1 / 10 ^ 9 < \<bar>sum_list (weights cfg) - 1\<bar>
      \<and> (\<exists>res. run_5M_simulation (\<lambda>n. real n) eng cfg 1 0 = (Inr res, 252)
            \<and> length (final_values res) = 1 \<and> config res = cfg)" by blast
  then show ?thesis unfolding Let_def cfg_def eng_def .
qed

section \<open>The Cholesky factor\<close>
















end
